theory Spec2Isabelle
  imports Main "HOL-Library.Word"
begin

section \<open>Values shared by the message layer and the state machines\<close>

text \<open>
  A Node \<open>Buffer\<close> is a list of bytes, a \<open>BN\<close> (bn.js) is an unbounded integer.
  A JavaScript \<open>throw\<close> is a value of type \<open>error\<close>: \<open>TypeError\<close> is what the runtime
  raises on a property read of \<open>undefined\<close> or on a call of something that is no
  function, \<open>Error msg\<close> is \<open>new Error(msg)\<close>.
\<close>

type_synonym byte = "8 word"
type_synonym buffer = "byte list"

datatype error = TypeError | Error string

definition EMPTY_32BYTE_BUFFER :: buffer where
  "EMPTY_32BYTE_BUFFER = replicate 32 0"

definition EMPTY_20BYTE_BUFFER :: buffer where
  "EMPTY_20BYTE_BUFFER = replicate 20 0"

text \<open>
  \<open>Buffer.prototype.compare\<close>: the byte-wise lexicographic order, as -1, 0 or 1. The
  sources only ever test the result against 0.
\<close>

fun Buffer_compare :: "buffer \<Rightarrow> buffer \<Rightarrow> int" where
  "Buffer_compare [] [] = 0"
| "Buffer_compare [] (y # ys) = - 1"
| "Buffer_compare (x # xs) [] = 1"
| "Buffer_compare (x # xs) (y # ys) =
     (if x < y then - 1 else if y < x then 1 else Buffer_compare xs ys)"

subsection \<open>JavaScript values\<close>

text \<open>
  The constructors of the message classes read an untyped \<open>options\<close> object, and the wire
  format is a JSON document. Both are values of \<open>jsval\<close>. \<open>JObj c kvs\<close> is an object of
  class \<open>c\<close> (\<open>''Object''\<close> for an object literal or a parsed JSON object) with its own
  properties, each name once, in the order they were assigned; \<open>JBN\<close> and \<open>JBuffer\<close> are instances of
  \<open>BN\<close> and \<open>Buffer\<close>. Numbers are the integers; a JSON document is a value without
  \<open>JUndefined\<close>, \<open>JBN\<close> and \<open>JBuffer\<close>, and the text it is written as is not
  modelled: \<open>JSON.parse\<close> returns the document whose text \<open>JSON.stringify\<close> wrote.
\<close>

datatype jsval =
    JUndefined
  | JNull
  | JBool bool
  | JNum int
  | JStr string
  | JBN int
  | JBuffer buffer
  | JArr "jsval list"
  | JObj string "(string \<times> jsval) list"

definition truthy :: "jsval \<Rightarrow> bool" where
  "truthy value =
     (case value of
        JUndefined \<Rightarrow> False
      | JNull \<Rightarrow> False
      | JBool b \<Rightarrow> b
      | JNum n \<Rightarrow> n \<noteq> 0
      | JStr str \<Rightarrow> str \<noteq> []
      | JBN n \<Rightarrow> True
      | JBuffer b \<Rightarrow> True
      | JArr vs \<Rightarrow> True
      | JObj c kvs \<Rightarrow> True)"

text \<open>
  A property read of \<open>null\<close> or \<open>undefined\<close> raises a \<open>TypeError\<close>; every
  constructor reads a property of \<open>options\<close> first thing, so it starts with the test
  \<open>nullish\<close>. \<open>property\<close> is the read of any other value, where a property that is
  not there reads as \<open>undefined\<close>.
\<close>

definition nullish :: "jsval \<Rightarrow> bool" where
  "nullish value = (value = JNull \<or> value = JUndefined)"

definition property :: "jsval \<Rightarrow> string \<Rightarrow> jsval" where
  "property value k =
     (case value of
        JObj c kvs \<Rightarrow> (case map_of kvs k of Some x \<Rightarrow> x | None \<Rightarrow> JUndefined)
      | _ \<Rightarrow> JUndefined)"

definition hasOwnProperty :: "jsval \<Rightarrow> string \<Rightarrow> bool" where
  "hasOwnProperty value k =
     (case value of JObj c kvs \<Rightarrow> k \<in> set (map fst kvs) | _ \<Rightarrow> False)"

definition own_keys :: "jsval \<Rightarrow> string list" where
  "own_keys value = (case value of JObj c kvs \<Rightarrow> map fst kvs | _ \<Rightarrow> [])"

definition the_JBuffer :: "jsval \<Rightarrow> buffer option" where
  "the_JBuffer value = (case value of JBuffer b \<Rightarrow> Some b | _ \<Rightarrow> None)"

definition the_JBN :: "jsval \<Rightarrow> int option" where
  "the_JBN value = (case value of JBN n \<Rightarrow> Some n | _ \<Rightarrow> None)"

definition the_JNum :: "jsval \<Rightarrow> int option" where
  "the_JNum value = (case value of JNum n \<Rightarrow> Some n | _ \<Rightarrow> None)"

subsection \<open>What the sources import\<close>

text \<open>
  The hashing, packing and signature functions come from \<open>ethereumjs-util\<close> and
  \<open>ethereumjs-abi\<close>, the big numbers from bn.js, and \<open>REVEAL_TIMEOUT\<close> from the module
  \<open>./channel\<close>; none of them is part of the two source files. They are parameters of the
  model, collected in one record, and every theorem holds for all of them.
  \<^item> \<open>soliditySHA3 types values\<close> receives the two lists exactly as the source passes
    them, so the pair of lists is the hash pre-image.
  \<^item> \<open>BN_new16 value\<close> is \<open>new util.BN(value, 16)\<close> and \<open>BN_toString16\<close> is
    \<open>BN.prototype.toJSON\<close>, the number in base 16.
  \<^item> \<open>ToUint8\<close> is the byte \<open>Buffer.from\<close> makes of an array element that is not a
    number.
\<close>

datatype sol_type = uint256 | address | bytes32

datatype sol_value = BNv int | Bufv buffer

record externals =
  soliditySHA3 :: "sol_type list \<Rightarrow> sol_value list \<Rightarrow> error + buffer"
  sha3 :: "buffer \<Rightarrow> buffer"
  ecrecover :: "buffer \<Rightarrow> int \<Rightarrow> buffer \<Rightarrow> buffer \<Rightarrow> error + buffer"
  pubToAddress :: "buffer \<Rightarrow> error + buffer"
  REVEAL_TIMEOUT :: int
  BN_new16 :: "jsval \<Rightarrow> error + int"
  BN_toString16 :: "int \<Rightarrow> string"
  ToUint8 :: "jsval \<Rightarrow> byte"

section \<open>Messages (lib/state-channel/message.js)\<close>

text \<open>
  Each class is a record and \<open>extends\<close> is record extension, so a function on a parent
  class applies to every subclass. Field names are the source's; where two classes share a
  name it is written qualified (\<open>Lock.hashLock\<close>, \<open>RequestSecret.hashLock\<close>). The field
  \<open>classType\<close> is the class name and is fixed by the record type. A signature that is
  \<open>null\<close> is \<open>None\<close>.
\<close>

record Signature =
  sig_r :: buffer
  sig_s :: buffer
  sig_v :: int

record SignedMessage =
  signature :: "Signature option"

record Proof = SignedMessage +
  nonce :: int
  transferredAmount :: int
  locksRoot :: buffer
  channelAddress :: buffer
  messageHash :: buffer

record ProofMessage = SignedMessage +
  nonce :: int
  transferredAmount :: int
  locksRoot :: buffer
  channelAddress :: buffer
  messageHash :: buffer

record Lock =
  amount :: int
  expiration :: int
  hashLock :: buffer

record OpenLock = Lock +
  secret :: "buffer option"

record DirectTransfer = ProofMessage +
  msgID :: int
  to :: buffer

text \<open>
  The constructor of \<open>LockedTransfer\<close> does not always assign \<open>this.lock\<close>, so the field
  is optional: \<open>None\<close> is a \<open>lock\<close> property that was never set.
\<close>

record LockedTransfer = DirectTransfer +
  lock :: "Lock option"

record MediatedTransfer = LockedTransfer +
  target :: buffer
  initiator :: buffer

record RequestSecret = SignedMessage +
  msgID :: int
  to :: buffer
  hashLock :: buffer
  amount :: int

record RevealSecret = SignedMessage +
  secret :: buffer
  to :: buffer

record SecretToProof = ProofMessage +
  msgID :: int
  to :: buffer
  secret :: buffer

text \<open>
  \<open>Ack\<close> stores \<open>options.msgID\<close> as it comes, without \<open>TO_BN\<close>, so the field holds
  whatever value was passed: \<open>JBN n\<close> when it is the \<open>BN\<close> the class documents.
\<close>

record Ack =
  to :: buffer
  messageHash :: buffer
  msgID :: jsval

datatype message =
    MSignedMessage SignedMessage
  | MProof Proof
  | MProofMessage ProofMessage
  | MLock Lock
  | MOpenLock OpenLock
  | MDirectTransfer DirectTransfer
  | MLockedTransfer LockedTransfer
  | MMediatedTransfer MediatedTransfer
  | MRequestSecret RequestSecret
  | MRevealSecret RevealSecret
  | MSecretToProof SecretToProof
  | MAck Ack

subsection \<open>Hashes\<close>

definition SignedMessage_getHash :: "error + buffer" where
  "SignedMessage_getHash = Inl (Error ''unimplemented getHash()'')"

definition Proof_getHash :: "externals \<Rightarrow> 'a Proof_scheme \<Rightarrow> error + buffer" where
  "Proof_getHash X this =
     soliditySHA3 X [uint256, uint256, address, bytes32, bytes32]
       [BNv (Proof.nonce this),
        BNv (Proof.transferredAmount this),
        Bufv (Proof.channelAddress this),
        Bufv (Proof.locksRoot this),
        Bufv (Proof.messageHash this)]"

text \<open>
  \<open>ProofMessage.getHash\<close> calls the virtual \<open>getMessageHash\<close> of the concrete class
  while it builds the value list; the result of that call is the second argument here, and an
  exception thrown by it leaves \<open>getHash\<close> before \<open>soliditySHA3\<close> is called.
\<close>

definition ProofMessage_getMessageHash :: "error + buffer" where
  "ProofMessage_getMessageHash = Inl (Error ''unimplemented getMessageHash'')"

definition ProofMessage_getHash ::
  "externals \<Rightarrow> error + buffer \<Rightarrow> 'a ProofMessage_scheme \<Rightarrow> error + buffer" where
  "ProofMessage_getHash X getMessageHash this =
     (case getMessageHash of
        Inl e \<Rightarrow> Inl e
      | Inr mh \<Rightarrow>
          soliditySHA3 X [uint256, uint256, address, bytes32, bytes32]
            [BNv (ProofMessage.nonce this),
             BNv (ProofMessage.transferredAmount this),
             Bufv (ProofMessage.channelAddress this),
             Bufv (ProofMessage.locksRoot this),
             Bufv mh])"

definition Lock_getMessageHash :: "externals \<Rightarrow> 'a Lock_scheme \<Rightarrow> error + buffer" where
  "Lock_getMessageHash X this =
     soliditySHA3 X [uint256, uint256, bytes32]
       [BNv (Lock.amount this), BNv (Lock.expiration this), Bufv (Lock.hashLock this)]"

definition DirectTransfer_getMessageHash ::
  "externals \<Rightarrow> 'a DirectTransfer_scheme \<Rightarrow> error + buffer" where
  "DirectTransfer_getMessageHash X this =
     soliditySHA3 X [uint256, uint256, uint256, address, bytes32, address]
       [BNv (DirectTransfer.msgID this),
        BNv (ProofMessage.nonce this),
        BNv (ProofMessage.transferredAmount this),
        Bufv (ProofMessage.channelAddress this),
        Bufv (ProofMessage.locksRoot this),
        Bufv (DirectTransfer.to this)]"

text \<open>
  \<open>this.lock.getMessageHash()\<close> is the last element of the value list: on an unset
  \<open>lock\<close> the property read raises a \<open>TypeError\<close>.
\<close>

definition LockedTransfer_getMessageHash ::
  "externals \<Rightarrow> 'a LockedTransfer_scheme \<Rightarrow> error + buffer" where
  "LockedTransfer_getMessageHash X this =
     (case LockedTransfer.lock this of
        None \<Rightarrow> Inl TypeError
      | Some lk \<Rightarrow>
          (case Lock_getMessageHash X lk of
             Inl e \<Rightarrow> Inl e
           | Inr lh \<Rightarrow>
               soliditySHA3 X [uint256, uint256, uint256, address, bytes32, address, bytes32]
                 [BNv (DirectTransfer.msgID this),
                  BNv (ProofMessage.nonce this),
                  BNv (ProofMessage.transferredAmount this),
                  Bufv (ProofMessage.channelAddress this),
                  Bufv (ProofMessage.locksRoot this),
                  Bufv (DirectTransfer.to this),
                  Bufv lh]))"

definition MediatedTransfer_getMessageHash ::
  "externals \<Rightarrow> 'a MediatedTransfer_scheme \<Rightarrow> error + buffer" where
  "MediatedTransfer_getMessageHash X this =
     (case LockedTransfer.lock this of
        None \<Rightarrow> Inl TypeError
      | Some lk \<Rightarrow>
          (case Lock_getMessageHash X lk of
             Inl e \<Rightarrow> Inl e
           | Inr lh \<Rightarrow>
               soliditySHA3 X
                 [uint256, uint256, uint256, address, bytes32, address, address, address, bytes32]
                 [BNv (DirectTransfer.msgID this),
                  BNv (ProofMessage.nonce this),
                  BNv (ProofMessage.transferredAmount this),
                  Bufv (ProofMessage.channelAddress this),
                  Bufv (ProofMessage.locksRoot this),
                  Bufv (DirectTransfer.to this),
                  Bufv (MediatedTransfer.target this),
                  Bufv (MediatedTransfer.initiator this),
                  Bufv lh]))"

definition RequestSecret_getHash ::
  "externals \<Rightarrow> 'a RequestSecret_scheme \<Rightarrow> error + buffer" where
  "RequestSecret_getHash X this =
     soliditySHA3 X [uint256, address, bytes32, uint256]
       [BNv (RequestSecret.msgID this),
        Bufv (RequestSecret.to this),
        Bufv (RequestSecret.hashLock this),
        BNv (RequestSecret.amount this)]"

definition RevealSecret_getHash ::
  "externals \<Rightarrow> 'a RevealSecret_scheme \<Rightarrow> error + buffer" where
  "RevealSecret_getHash X this =
     soliditySHA3 X [bytes32, address]
       [Bufv (RevealSecret.secret this), Bufv (RevealSecret.to this)]"

definition RevealSecret_hashLock :: "externals \<Rightarrow> 'a RevealSecret_scheme \<Rightarrow> buffer" where
  "RevealSecret_hashLock X this = sha3 X (RevealSecret.secret this)"

definition SecretToProof_getMessageHash ::
  "externals \<Rightarrow> 'a SecretToProof_scheme \<Rightarrow> error + buffer" where
  "SecretToProof_getMessageHash X this =
     soliditySHA3 X [uint256, uint256, uint256, address, bytes32, address, bytes32]
       [BNv (SecretToProof.msgID this),
        BNv (ProofMessage.nonce this),
        BNv (ProofMessage.transferredAmount this),
        Bufv (ProofMessage.channelAddress this),
        Bufv (ProofMessage.locksRoot this),
        Bufv (SecretToProof.to this),
        Bufv (SecretToProof.secret this)]"

definition SecretToProof_hashLock :: "externals \<Rightarrow> 'a SecretToProof_scheme \<Rightarrow> buffer" where
  "SecretToProof_hashLock X this = sha3 X (SecretToProof.secret this)"

subsection \<open>The sender of a signed message\<close>

text \<open>
  \<open>_recoverAddress\<close> and the getter \<open>from\<close> of \<open>SignedMessage\<close>. The hash of the
  concrete class is the argument \<open>getHash\<close>; it is only looked at once a signature is
  present, as in the source, where \<open>this.getHash()\<close> is called inside
  \<open>_recoverAddress\<close>. \<open>util.toBuffer\<close> is the identity on a \<open>Buffer\<close>.
\<close>

definition SignedMessage_recoverAddress ::
  "externals \<Rightarrow> error + buffer \<Rightarrow> Signature \<Rightarrow> error + buffer" where
  "SignedMessage_recoverAddress X getHash sg =
     (case getHash of
        Inl e \<Rightarrow> Inl e
      | Inr buf \<Rightarrow>
          (case ecrecover X buf (sig_v sg) (sig_r sg) (sig_s sg) of
             Inl e \<Rightarrow> Inl e
           | Inr pk \<Rightarrow> pubToAddress X pk))"

definition SignedMessage_from ::
  "externals \<Rightarrow> error + buffer \<Rightarrow> 'a SignedMessage_scheme \<Rightarrow> error + buffer" where
  "SignedMessage_from X getHash this =
     (case signature this of
        None \<Rightarrow> Inl (Error ''no signature to recover address from'')
      | Some sg \<Rightarrow> SignedMessage_recoverAddress X getHash sg)"

definition SignedMessage_isSigned :: "'a SignedMessage_scheme \<Rightarrow> bool" where
  "SignedMessage_isSigned this = (\<not> (signature this = None))"

definition RequestSecret_from :: "externals \<Rightarrow> 'a RequestSecret_scheme \<Rightarrow> error + buffer" where
  "RequestSecret_from X this = SignedMessage_from X (RequestSecret_getHash X this) this"

definition RevealSecret_from :: "externals \<Rightarrow> 'a RevealSecret_scheme \<Rightarrow> error + buffer" where
  "RevealSecret_from X this = SignedMessage_from X (RevealSecret_getHash X this) this"

definition SecretToProof_from :: "externals \<Rightarrow> 'a SecretToProof_scheme \<Rightarrow> error + buffer" where
  "SecretToProof_from X this =
     SignedMessage_from X (ProofMessage_getHash X (SecretToProof_getMessageHash X this) this) this"

definition MediatedTransfer_from ::
  "externals \<Rightarrow> 'a MediatedTransfer_scheme \<Rightarrow> error + buffer" where
  "MediatedTransfer_from X this =
     SignedMessage_from X (ProofMessage_getHash X (MediatedTransfer_getMessageHash X this) this) this"

subsection \<open>Constructors\<close>

text \<open>
  A constructor reads an untyped \<open>options\<close> object and the records are typed. Its result
  is \<open>Built\<close> with the object, \<open>Throws\<close> with the exception it raised, or
  \<open>Untyped\<close>: the source built an object, but one holding a value of another JavaScript
  type than the record has for that field (a string for a \<open>Buffer\<close>, say), which the
  source stores as it is. Nothing is stated about such objects.
\<close>

datatype 'a built = Built 'a | Throws error | Untyped

fun andThen :: "'a built \<Rightarrow> ('a \<Rightarrow> 'b built) \<Rightarrow> 'b built" where
  "andThen (Built x) f = f x"
| "andThen (Throws e) f = Throws e"
| "andThen Untyped f = Untyped"

text \<open>
  \<open>TO_BN\<close>. Its result is always a \<open>BN\<close> object, which is truthy, so the alternative of
  \<open>TO_BN(...) || new util.BN(0)\<close> in the constructors is never evaluated (nor is
  \<open>util.BN(0)\<close>, written without \<open>new\<close>, in \<open>RequestSecret\<close>).
\<close>

definition TO_BN :: "externals \<Rightarrow> jsval \<Rightarrow> int built" where
  "TO_BN X value =
     (case the_JBN value of
        Some n \<Rightarrow> Built n
      | None \<Rightarrow> (case BN_new16 X value of Inl e \<Rightarrow> Throws e | Inr n \<Rightarrow> Built n))"

text \<open>\<open>value || dflt\<close> for a field that holds a \<open>Buffer\<close>.\<close>

definition Buffer_or :: "jsval \<Rightarrow> buffer \<Rightarrow> buffer built" where
  "Buffer_or value dflt =
     (if \<not> truthy value then Built dflt
      else (case the_JBuffer value of Some b \<Rightarrow> Built b | None \<Rightarrow> Untyped))"

text \<open>
  \<open>options.signature || null\<close>. A signature is the object \<open>{r, s, v}\<close> that
  \<open>util.ecsign\<close> returns.
\<close>

definition Signature_or_null :: "jsval \<Rightarrow> Signature option built" where
  "Signature_or_null value =
     (if \<not> truthy value then Built None
      else (case (the_JBuffer (property value ''r''), the_JBuffer (property value ''s''),
                  the_JNum (property value ''v'')) of
              (Some br, Some bs, Some n) \<Rightarrow>
                if own_keys value = [''r'', ''s'', ''v'']
                then Built (Some \<lparr>sig_r = br, sig_s = bs, sig_v = n\<rparr>)
                else Untyped
            | _ \<Rightarrow> Untyped))"

definition SignedMessage_constructor :: "jsval \<Rightarrow> SignedMessage built" where
  "SignedMessage_constructor options =
     (if nullish options then Throws TypeError
      else andThen (Signature_or_null (property options ''signature'')) (\<lambda>sg.
           Built \<lparr>signature = sg\<rparr>))"

definition Proof_constructor :: "externals \<Rightarrow> jsval \<Rightarrow> Proof built" where
  "Proof_constructor X options =
     andThen (SignedMessage_constructor options) (\<lambda>this.
     andThen (TO_BN X (property options ''nonce'')) (\<lambda>n.
     andThen (TO_BN X (property options ''transferredAmount'')) (\<lambda>ta.
     andThen (Buffer_or (property options ''locksRoot'') EMPTY_32BYTE_BUFFER) (\<lambda>lr.
     andThen (Buffer_or (property options ''channelAddress'') EMPTY_20BYTE_BUFFER) (\<lambda>ca.
     andThen (Buffer_or (property options ''messageHash'') EMPTY_32BYTE_BUFFER) (\<lambda>mh.
     andThen (Signature_or_null (property options ''signature'')) (\<lambda>sg.
     Built (SignedMessage.extend (this\<lparr>signature := sg\<rparr>) (Proof.fields n ta lr ca mh)))))))))"

definition ProofMessage_constructor :: "externals \<Rightarrow> jsval \<Rightarrow> ProofMessage built" where
  "ProofMessage_constructor X options =
     andThen (SignedMessage_constructor options) (\<lambda>this.
     andThen (TO_BN X (property options ''nonce'')) (\<lambda>n.
     andThen (TO_BN X (property options ''transferredAmount'')) (\<lambda>ta.
     andThen (Buffer_or (property options ''locksRoot'') EMPTY_32BYTE_BUFFER) (\<lambda>lr.
     andThen (Buffer_or (property options ''channelAddress'') EMPTY_20BYTE_BUFFER) (\<lambda>ca.
     andThen (Buffer_or (property options ''messageHash'') EMPTY_32BYTE_BUFFER) (\<lambda>mh.
     andThen (Signature_or_null (property options ''signature'')) (\<lambda>sg.
     Built (SignedMessage.extend (this\<lparr>signature := sg\<rparr>) (ProofMessage.fields n ta lr ca mh)))))))))"

definition Lock_constructor :: "externals \<Rightarrow> jsval \<Rightarrow> Lock built" where
  "Lock_constructor X options =
     (if nullish options then Throws TypeError
      else andThen (TO_BN X (property options ''amount'')) (\<lambda>a.
           andThen (TO_BN X (property options ''expiration'')) (\<lambda>e.
           andThen (Buffer_or (property options ''hashLock'') EMPTY_32BYTE_BUFFER) (\<lambda>h.
           Built \<lparr>Lock.amount = a, Lock.expiration = e, Lock.hashLock = h\<rparr>))))"

text \<open>\<open>new OpenLock(lock, secret)\<close>; the decoder calls it with one argument.\<close>

definition OpenLock_constructor :: "externals \<Rightarrow> jsval \<Rightarrow> buffer option \<Rightarrow> OpenLock built" where
  "OpenLock_constructor X lck scrt =
     andThen (Lock_constructor X lck) (\<lambda>this.
     Built (Lock.extend this (OpenLock.fields scrt)))"

definition DirectTransfer_constructor :: "externals \<Rightarrow> jsval \<Rightarrow> DirectTransfer built" where
  "DirectTransfer_constructor X options =
     andThen (ProofMessage_constructor X options) (\<lambda>this.
     andThen (TO_BN X (property options ''msgID'')) (\<lambda>i.
     andThen (Buffer_or (property options ''to'') EMPTY_20BYTE_BUFFER) (\<lambda>t.
     Built (ProofMessage.extend this (DirectTransfer.fields i t)))))"

text \<open>
  \<open>instanceof Lock\<close> and \<open>instanceof Object\<close>. An instance of \<open>Lock\<close> is taken over
  as the \<open>lock\<close>; the record holds it when it is of class \<open>Lock\<close> itself with the three
  fields a \<open>Lock\<close> has.
\<close>

definition instanceof_Lock :: "jsval \<Rightarrow> bool" where
  "instanceof_Lock value =
     (case value of JObj c kvs \<Rightarrow> c = ''Lock'' \<or> c = ''OpenLock'' | _ \<Rightarrow> False)"

definition instanceof_Object :: "jsval \<Rightarrow> bool" where
  "instanceof_Object value =
     (case value of
        JObj c kvs \<Rightarrow> True | JArr vs \<Rightarrow> True | JBuffer b \<Rightarrow> True | JBN n \<Rightarrow> True
      | _ \<Rightarrow> False)"

definition Lock_instance :: "jsval \<Rightarrow> Lock built" where
  "Lock_instance value =
     (case (the_JBN (property value ''amount''), the_JBN (property value ''expiration''),
            the_JBuffer (property value ''hashLock'')) of
        (Some a, Some e, Some h) \<Rightarrow>
          if value = JObj ''Lock'' [(''amount'', JBN a), (''expiration'', JBN e), (''hashLock'', JBuffer h)]
          then Built \<lparr>Lock.amount = a, Lock.expiration = e, Lock.hashLock = h\<rparr>
          else Untyped
      | _ \<Rightarrow> Untyped)"

text \<open>
  The first branch assigns the new \<open>Lock\<close> to \<open>options.lock\<close>, not to \<open>this.lock\<close>:
  \<open>new Lock({})\<close> is evaluated (and may throw), and the object is left without a
  \<open>lock\<close>. No constructor reads \<open>options.lock\<close> afterwards, so the changed \<open>options\<close>
  is not returned. A truthy \<open>options.lock\<close> that is no object matches no branch.
\<close>

definition LockedTransfer_constructor :: "externals \<Rightarrow> jsval \<Rightarrow> LockedTransfer built" where
  "LockedTransfer_constructor X options =
     andThen (DirectTransfer_constructor X options) (\<lambda>this.
     if \<not> truthy (property options ''lock'')
     then andThen (Lock_constructor X (JObj ''Object'' [])) (\<lambda>unused.
          Built (DirectTransfer.extend this (LockedTransfer.fields None)))
     else if instanceof_Lock (property options ''lock'')
     then andThen (Lock_instance (property options ''lock'')) (\<lambda>lk.
          Built (DirectTransfer.extend this (LockedTransfer.fields (Some lk))))
     else if instanceof_Object (property options ''lock'')
     then andThen (Lock_constructor X (property options ''lock'')) (\<lambda>lk.
          Built (DirectTransfer.extend this (LockedTransfer.fields (Some lk))))
     else Built (DirectTransfer.extend this (LockedTransfer.fields None)))"

definition MediatedTransfer_constructor :: "externals \<Rightarrow> jsval \<Rightarrow> MediatedTransfer built" where
  "MediatedTransfer_constructor X options =
     andThen (LockedTransfer_constructor X options) (\<lambda>this.
     andThen (Buffer_or (property options ''target'') EMPTY_20BYTE_BUFFER) (\<lambda>t.
     andThen (Buffer_or (property options ''initiator'') EMPTY_20BYTE_BUFFER) (\<lambda>i.
     Built (LockedTransfer.extend this (MediatedTransfer.fields t i)))))"

definition RequestSecret_constructor :: "externals \<Rightarrow> jsval \<Rightarrow> RequestSecret built" where
  "RequestSecret_constructor X options =
     andThen (SignedMessage_constructor options) (\<lambda>this.
     andThen (TO_BN X (property options ''msgID'')) (\<lambda>i.
     andThen (Buffer_or (property options ''to'') EMPTY_20BYTE_BUFFER) (\<lambda>t.
     andThen (Buffer_or (property options ''hashLock'') EMPTY_32BYTE_BUFFER) (\<lambda>h.
     andThen (TO_BN X (property options ''amount'')) (\<lambda>a.
     Built (SignedMessage.extend this (RequestSecret.fields i t h a)))))))"

definition RevealSecret_constructor :: "jsval \<Rightarrow> RevealSecret built" where
  "RevealSecret_constructor options =
     andThen (SignedMessage_constructor options) (\<lambda>this.
     andThen (Buffer_or (property options ''secret'') EMPTY_32BYTE_BUFFER) (\<lambda>sc.
     andThen (Buffer_or (property options ''to'') EMPTY_20BYTE_BUFFER) (\<lambda>t.
     Built (SignedMessage.extend this (RevealSecret.fields sc t)))))"

definition SecretToProof_constructor :: "externals \<Rightarrow> jsval \<Rightarrow> SecretToProof built" where
  "SecretToProof_constructor X options =
     andThen (ProofMessage_constructor X options) (\<lambda>this.
     andThen (TO_BN X (property options ''msgID'')) (\<lambda>i.
     andThen (Buffer_or (property options ''to'') EMPTY_20BYTE_BUFFER) (\<lambda>t.
     andThen (Buffer_or (property options ''secret'') EMPTY_32BYTE_BUFFER) (\<lambda>sc.
     Built (ProofMessage.extend this (SecretToProof.fields i t sc))))))"

definition Ack_constructor :: "jsval \<Rightarrow> Ack built" where
  "Ack_constructor options =
     (if nullish options then Throws TypeError
      else andThen (Buffer_or (property options ''to'') EMPTY_20BYTE_BUFFER) (\<lambda>t.
           andThen (Buffer_or (property options ''messageHash'') EMPTY_32BYTE_BUFFER) (\<lambda>mh.
           Built \<lparr>Ack.to = t, Ack.messageHash = mh,
                  Ack.msgID = (if truthy (property options ''msgID'')
                               then property options ''msgID'' else JBN 0)\<rparr>)))"

subsection \<open>Instances as JavaScript objects\<close>

text \<open>
  The object a typed message is: its class and its own properties in the order the
  constructors assign them. \<open>SignedMessage\<close> sets \<open>classType\<close> to the name of the
  concrete class; \<open>Lock\<close> and \<open>Ack\<close> do not extend it and have no such property. A
  \<open>lock\<close> that was never assigned is no property at all.
\<close>

definition Signature_object :: "Signature option \<Rightarrow> jsval" where
  "Signature_object sg =
     (case sg of
        None \<Rightarrow> JNull
      | Some x \<Rightarrow> JObj ''Object''
          [(''r'', JBuffer (sig_r x)), (''s'', JBuffer (sig_s x)), (''v'', JNum (sig_v x))])"

definition SignedMessage_props :: "string \<Rightarrow> 'a SignedMessage_scheme \<Rightarrow> (string \<times> jsval) list" where
  "SignedMessage_props cls this =
     [(''classType'', JStr cls), (''signature'', Signature_object (signature this))]"

definition Proof_props :: "string \<Rightarrow> 'a Proof_scheme \<Rightarrow> (string \<times> jsval) list" where
  "Proof_props cls this =
     SignedMessage_props cls this @
     [(''nonce'', JBN (Proof.nonce this)),
      (''transferredAmount'', JBN (Proof.transferredAmount this)),
      (''locksRoot'', JBuffer (Proof.locksRoot this)),
      (''channelAddress'', JBuffer (Proof.channelAddress this)),
      (''messageHash'', JBuffer (Proof.messageHash this))]"

definition ProofMessage_props :: "string \<Rightarrow> 'a ProofMessage_scheme \<Rightarrow> (string \<times> jsval) list" where
  "ProofMessage_props cls this =
     SignedMessage_props cls this @
     [(''nonce'', JBN (ProofMessage.nonce this)),
      (''transferredAmount'', JBN (ProofMessage.transferredAmount this)),
      (''locksRoot'', JBuffer (ProofMessage.locksRoot this)),
      (''channelAddress'', JBuffer (ProofMessage.channelAddress this)),
      (''messageHash'', JBuffer (ProofMessage.messageHash this))]"

definition Lock_props :: "'a Lock_scheme \<Rightarrow> (string \<times> jsval) list" where
  "Lock_props this =
     [(''amount'', JBN (Lock.amount this)),
      (''expiration'', JBN (Lock.expiration this)),
      (''hashLock'', JBuffer (Lock.hashLock this))]"

definition OpenLock_props :: "'a OpenLock_scheme \<Rightarrow> (string \<times> jsval) list" where
  "OpenLock_props this =
     Lock_props this @
     [(''secret'', case OpenLock.secret this of None \<Rightarrow> JUndefined | Some b \<Rightarrow> JBuffer b)]"

definition DirectTransfer_props :: "string \<Rightarrow> 'a DirectTransfer_scheme \<Rightarrow> (string \<times> jsval) list" where
  "DirectTransfer_props cls this =
     ProofMessage_props cls this @
     [(''msgID'', JBN (DirectTransfer.msgID this)), (''to'', JBuffer (DirectTransfer.to this))]"

definition LockedTransfer_props :: "string \<Rightarrow> 'a LockedTransfer_scheme \<Rightarrow> (string \<times> jsval) list" where
  "LockedTransfer_props cls this =
     DirectTransfer_props cls this @
     (case LockedTransfer.lock this of
        None \<Rightarrow> []
      | Some lk \<Rightarrow> [(''lock'', JObj ''Lock'' (Lock_props lk))])"

definition MediatedTransfer_props :: "string \<Rightarrow> 'a MediatedTransfer_scheme \<Rightarrow> (string \<times> jsval) list" where
  "MediatedTransfer_props cls this =
     LockedTransfer_props cls this @
     [(''target'', JBuffer (MediatedTransfer.target this)),
      (''initiator'', JBuffer (MediatedTransfer.initiator this))]"

definition RequestSecret_props :: "string \<Rightarrow> 'a RequestSecret_scheme \<Rightarrow> (string \<times> jsval) list" where
  "RequestSecret_props cls this =
     SignedMessage_props cls this @
     [(''msgID'', JBN (RequestSecret.msgID this)),
      (''to'', JBuffer (RequestSecret.to this)),
      (''hashLock'', JBuffer (RequestSecret.hashLock this)),
      (''amount'', JBN (RequestSecret.amount this))]"

definition RevealSecret_props :: "string \<Rightarrow> 'a RevealSecret_scheme \<Rightarrow> (string \<times> jsval) list" where
  "RevealSecret_props cls this =
     SignedMessage_props cls this @
     [(''secret'', JBuffer (RevealSecret.secret this)), (''to'', JBuffer (RevealSecret.to this))]"

definition SecretToProof_props :: "string \<Rightarrow> 'a SecretToProof_scheme \<Rightarrow> (string \<times> jsval) list" where
  "SecretToProof_props cls this =
     ProofMessage_props cls this @
     [(''msgID'', JBN (SecretToProof.msgID this)),
      (''to'', JBuffer (SecretToProof.to this)),
      (''secret'', JBuffer (SecretToProof.secret this))]"

definition Ack_props :: "'a Ack_scheme \<Rightarrow> (string \<times> jsval) list" where
  "Ack_props this =
     [(''to'', JBuffer (Ack.to this)),
      (''messageHash'', JBuffer (Ack.messageHash this)),
      (''msgID'', Ack.msgID this)]"

fun object_of :: "message \<Rightarrow> jsval" where
  "object_of (MSignedMessage x) = JObj ''SignedMessage'' (SignedMessage_props ''SignedMessage'' x)"
| "object_of (MProof x) = JObj ''Proof'' (Proof_props ''Proof'' x)"
| "object_of (MProofMessage x) = JObj ''ProofMessage'' (ProofMessage_props ''ProofMessage'' x)"
| "object_of (MLock x) = JObj ''Lock'' (Lock_props x)"
| "object_of (MOpenLock x) = JObj ''OpenLock'' (OpenLock_props x)"
| "object_of (MDirectTransfer x) = JObj ''DirectTransfer'' (DirectTransfer_props ''DirectTransfer'' x)"
| "object_of (MLockedTransfer x) = JObj ''LockedTransfer'' (LockedTransfer_props ''LockedTransfer'' x)"
| "object_of (MMediatedTransfer x) =
     JObj ''MediatedTransfer'' (MediatedTransfer_props ''MediatedTransfer'' x)"
| "object_of (MRequestSecret x) = JObj ''RequestSecret'' (RequestSecret_props ''RequestSecret'' x)"
| "object_of (MRevealSecret x) = JObj ''RevealSecret'' (RevealSecret_props ''RevealSecret'' x)"
| "object_of (MSecretToProof x) = JObj ''SecretToProof'' (SecretToProof_props ''SecretToProof'' x)"
| "object_of (MAck x) = JObj ''Ack'' (Ack_props x)"

subsection \<open>Serialization\<close>

text \<open>
  \<open>JSON.stringify\<close>, as the document it writes: a \<open>BN\<close> and a \<open>Buffer\<close> are replaced by
  what their \<open>toJSON\<close> returns (the number in base 16; \<open>{type: 'Buffer', data: [...]}\<close>),
  a property whose value is \<open>undefined\<close> is left out, and an \<open>undefined\<close> array element
  becomes \<open>null\<close>.
\<close>

primrec JSON_stringify :: "externals \<Rightarrow> jsval \<Rightarrow> jsval" where
  "JSON_stringify X JUndefined = JUndefined"
| "JSON_stringify X JNull = JNull"
| "JSON_stringify X (JBool b) = JBool b"
| "JSON_stringify X (JNum n) = JNum n"
| "JSON_stringify X (JStr str) = JStr str"
| "JSON_stringify X (JBN n) = JStr (BN_toString16 X n)"
| "JSON_stringify X (JBuffer b) =
     JObj ''Object'' [(''type'', JStr ''Buffer''), (''data'', JArr (map (\<lambda>x. JNum (uint x)) b))]"
| "JSON_stringify X (JArr vs) =
     JArr (map (\<lambda>x. if x = JUndefined then JNull else x) (map (JSON_stringify X) vs))"
| "JSON_stringify X (JObj c kvs) =
     JObj ''Object''
       (filter (\<lambda>kv. snd kv \<noteq> JUndefined) (map (map_prod id (JSON_stringify X)) kvs))"

definition SERIALIZE :: "externals \<Rightarrow> jsval \<Rightarrow> jsval" where
  "SERIALIZE X msg = JSON_stringify X msg"

text \<open>\<open>util.toBuffer\<close> of an array: \<open>Buffer.from\<close>, one byte for each element.\<close>

definition util_toBuffer :: "externals \<Rightarrow> jsval list \<Rightarrow> buffer" where
  "util_toBuffer X vs =
     map (\<lambda>x. case the_JNum x of Some n \<Rightarrow> word_of_int n | None \<Rightarrow> ToUint8 X x) vs"

definition JSON_REVIVER_FUNC :: "externals \<Rightarrow> jsval \<Rightarrow> jsval" where
  "JSON_REVIVER_FUNC X jv =
     (case jv of
        JObj c kvs \<Rightarrow>
          if hasOwnProperty jv ''type'' \<and> property jv ''type'' = JStr ''Buffer''
             \<and> hasOwnProperty jv ''data''
          then (case property jv ''data'' of
                  JArr vs \<Rightarrow> JBuffer (util_toBuffer X vs)
                | _ \<Rightarrow> jv)
          else jv
      | _ \<Rightarrow> jv)"

text \<open>
  \<open>JSON.parse(data, JSON_REVIVER_FUNC)\<close>: the reviver is applied to every value of the
  document, the parts of a value before the value itself.
\<close>

primrec JSON_parse :: "externals \<Rightarrow> jsval \<Rightarrow> jsval" where
  "JSON_parse X JUndefined = JSON_REVIVER_FUNC X JUndefined"
| "JSON_parse X JNull = JSON_REVIVER_FUNC X JNull"
| "JSON_parse X (JBool b) = JSON_REVIVER_FUNC X (JBool b)"
| "JSON_parse X (JNum n) = JSON_REVIVER_FUNC X (JNum n)"
| "JSON_parse X (JStr str) = JSON_REVIVER_FUNC X (JStr str)"
| "JSON_parse X (JBN n) = JSON_REVIVER_FUNC X (JBN n)"
| "JSON_parse X (JBuffer b) = JSON_REVIVER_FUNC X (JBuffer b)"
| "JSON_parse X (JArr vs) = JSON_REVIVER_FUNC X (JArr (map (JSON_parse X) vs))"
| "JSON_parse X (JObj c kvs) =
     JSON_REVIVER_FUNC X (JObj c (map (map_prod id (JSON_parse X)) kvs))"

definition DESERIALIZE :: "externals \<Rightarrow> jsval \<Rightarrow> jsval" where
  "DESERIALIZE X data = JSON_parse X data"

definition built_as :: "('a \<Rightarrow> message) \<Rightarrow> 'a built \<Rightarrow> message built" where
  "built_as tag b = andThen b (\<lambda>x. Built (tag x))"

text \<open>
  \<open>jsonObj.hasOwnProperty\<close> raises a \<open>TypeError\<close> on \<open>null\<close>, and also on a
  document with a property of that name, which hides the method. A \<open>classType\<close> that
  is not one of the twelve strings takes the \<open>default\<close> branch.
\<close>

definition DESERIALIZE_AND_DECODE_MESSAGE :: "externals \<Rightarrow> jsval \<Rightarrow> message built" where
  "DESERIALIZE_AND_DECODE_MESSAGE X data =
     (let jsonObj = DESERIALIZE X data in
      if jsonObj = JNull \<or> jsonObj = JUndefined then Throws TypeError
      else if hasOwnProperty jsonObj ''hasOwnProperty'' then Throws TypeError
      else if hasOwnProperty jsonObj ''classType''
      then (let classType = property jsonObj ''classType'' in
            if classType = JStr ''SignedMessage''
              then built_as MSignedMessage (SignedMessage_constructor jsonObj)
            else if classType = JStr ''Proof''
              then built_as MProof (Proof_constructor X jsonObj)
            else if classType = JStr ''ProofMessage''
              then built_as MProofMessage (ProofMessage_constructor X jsonObj)
            else if classType = JStr ''Lock''
              then built_as MLock (Lock_constructor X jsonObj)
            else if classType = JStr ''OpenLock''
              then built_as MOpenLock (OpenLock_constructor X jsonObj None)
            else if classType = JStr ''DirectTransfer''
              then built_as MDirectTransfer (DirectTransfer_constructor X jsonObj)
            else if classType = JStr ''LockedTransfer''
              then built_as MLockedTransfer (LockedTransfer_constructor X jsonObj)
            else if classType = JStr ''MediatedTransfer''
              then built_as MMediatedTransfer (MediatedTransfer_constructor X jsonObj)
            else if classType = JStr ''RequestSecret''
              then built_as MRequestSecret (RequestSecret_constructor X jsonObj)
            else if classType = JStr ''RevealSecret''
              then built_as MRevealSecret (RevealSecret_constructor jsonObj)
            else if classType = JStr ''SecretToProof''
              then built_as MSecretToProof (SecretToProof_constructor X jsonObj)
            else if classType = JStr ''Ack''
              then built_as MAck (Ack_constructor jsonObj)
            else Throws (Error ''Invalid Message: unknown classType''))
      else Throws (Error ''Invalid Message: not a recoginized GOT message type''))"

section \<open>The transfer state machines (src/state-channel/state-machine.ts)\<close>

text \<open>
  The record a machine works on is the mediated transfer together with the working fields
  \<open>secret\<close> and \<open>revealTo\<close> that the handlers add with \<open>Object.assign\<close>; a field that
  has not been assigned yet is \<open>None\<close>. Its getter \<open>from\<close> is the one of the mediated
  transfer.
\<close>

record TransferState = MediatedTransfer +
  secret :: "buffer option"
  revealTo :: "buffer option"

datatype label =
    init
  | awaitRequestSecret
  | awaitRevealSecret
  | awaitSecretToProof
  | completedTransfer
  | failedTransfer
  | expiredTransfer

text \<open>
  An input is the name handed to \<open>handle\<close> together with its argument. The three message
  inputs carry the message the name announces and \<open>handleBlock\<close> the block height;
  \<open>otherInput n b\<close> is any other name \<open>n\<close>, with or without a block height as argument.
  The four names that have an argument of their own are not names of an \<open>otherInput\<close>.
\<close>

definition reserved_names :: "string list" where
  "reserved_names =
     [''receiveRequestSecret'', ''receiveRevealSecret'', ''receiveSecretToProof'', ''handleBlock'']"

typedef other_name = "{n :: string. n \<notin> set reserved_names}"
  by (rule exI [of _ "[]"]) (simp add: reserved_names_def)

datatype event =
    receiveRequestSecret RequestSecret
  | receiveRevealSecret RevealSecret
  | receiveSecretToProof SecretToProof
  | handleBlock int
  | otherInput other_name "int option"

fun input_name :: "event \<Rightarrow> string" where
  "input_name (receiveRequestSecret q) = ''receiveRequestSecret''"
| "input_name (receiveRevealSecret q) = ''receiveRevealSecret''"
| "input_name (receiveSecretToProof q) = ''receiveSecretToProof''"
| "input_name (handleBlock b) = ''handleBlock''"
| "input_name (otherInput n bo) = Rep_other_name n"

text \<open>
  \<open>machina.BehavioralFsm\<close> keeps the state label with the client and hands the client to
  every handler. \<open>fsm\<close> is that pair together with two logs: \<open>emitted\<close>, the calls of
  \<open>this.emit\<close> made by the handlers (event name and the record passed along), and
  \<open>moved\<close>, the state changes made by \<open>this.transition\<close>. The notifications machina
  sends on its own behalf (\<open>handling\<close>, \<open>transition\<close>, \<open>nohandler\<close>, ...) are not
  side-effects of the protocol and are left out. A handler returns the machine as it left it
  and the exception it raised, if any.
\<close>

record fsm =
  client :: TransferState
  state :: label
  emitted :: "(string \<times> TransferState) list"
  moved :: "(label \<times> label) list"

type_synonym outcome = "fsm \<times> error option"

definition emit :: "string \<Rightarrow> TransferState \<Rightarrow> fsm \<Rightarrow> fsm" where
  "emit name payload m = m\<lparr>emitted := emitted m @ [(name, payload)]\<rparr>"

text \<open>machina changes the label only when the new state differs from the current one.\<close>

definition transition :: "label \<Rightarrow> fsm \<Rightarrow> fsm" where
  "transition newState m =
     (if newState \<noteq> state m
      then m\<lparr>state := newState, moved := moved m @ [(state m, newState)]\<rparr>
      else m)"

definition returns :: "fsm \<Rightarrow> outcome" where
  "returns m = (m, None)"

definition throws :: "error \<Rightarrow> fsm \<Rightarrow> outcome" where
  "throws e m = (m, Some e)"

text \<open>
  The argument that a catch-all handler of a state receives as \<open>currentBlock\<close>. A message
  or a missing argument is no \<open>BN\<close>: calling \<open>add\<close> on it raises a \<open>TypeError\<close>.
\<close>

fun currentBlock_of :: "event \<Rightarrow> int option" where
  "currentBlock_of (handleBlock b) = Some b"
| "currentBlock_of (otherInput n bo) = bo"
| "currentBlock_of (receiveRequestSecret q) = None"
| "currentBlock_of (receiveRevealSecret q) = None"
| "currentBlock_of (receiveSecretToProof q) = None"

subsection \<open>How machina finds the handler\<close>

text \<open>
  \<open>handle\<close> looks the input name up in the object of the current state: when that object
  has a property of this name, the property is the handler, and only otherwise the catch-all
  \<open>*\<close> of the state, if it has one. The lookup is a plain property read, so it also finds
  the hooks \<open>_onEnter\<close> and \<open>_onExit\<close> of the state and the properties every object
  inherits from \<open>Object.prototype\<close>.
  \<^item> A hook of the two machines, called as a handler, returns \<open>null\<close> and does nothing.
  \<^item> An inherited function is called with the client and the argument of the input. None
    emits or changes the state; \<open>__defineGetter__\<close> and \<open>__defineSetter__\<close> raise a
    \<open>TypeError\<close>, since the argument is no function. \<open>__proto__\<close> is an object, which
    machina takes for the name of a state to move to; there is no such state.
  \<^item> Without a property of that name and without a catch-all nothing happens.
\<close>

definition Object_prototype_properties :: "string list" where
  "Object_prototype_properties =
     [''constructor'', ''__defineGetter__'', ''__defineSetter__'', ''hasOwnProperty'',
      ''__lookupGetter__'', ''__lookupSetter__'', ''isPrototypeOf'', ''propertyIsEnumerable'',
      ''toString'', ''valueOf'', ''__proto__'', ''toLocaleString'']"

definition inherited_property :: "string \<Rightarrow> fsm \<Rightarrow> outcome" where
  "inherited_property n m =
     (if n = ''__defineGetter__'' \<or> n = ''__defineSetter__'' then throws TypeError m
      else returns m)"

definition property_as_handler :: "string list \<Rightarrow> string \<Rightarrow> fsm \<Rightarrow> outcome option" where
  "property_as_handler hooks n m =
     (if n \<in> set hooks then Some (returns m)
      else if n \<in> set Object_prototype_properties then Some (inherited_property n m)
      else None)"

text \<open>
  An input for which the state has no handler of its own: \<open>hooks\<close> are the hooks of the
  state, and \<open>catchAll\<close> is its \<open>*\<close> handler, if it has one.
\<close>

definition handler_or_catch_all ::
  "string list \<Rightarrow> (fsm \<Rightarrow> outcome) option \<Rightarrow> event \<Rightarrow> fsm \<Rightarrow> outcome" where
  "handler_or_catch_all hooks catchAll ev m =
     (case property_as_handler hooks (input_name ev) m of
        Some out \<Rightarrow> out
      | None \<Rightarrow> (case catchAll of Some h \<Rightarrow> h m | None \<Rightarrow> returns m))"

subsection \<open>InitiatorFactory\<close>

definition Initiator_init_hooks :: "string list" where
  "Initiator_init_hooks = [''_onEnter'', ''_onExit'']"

definition Initiator_awaitRevealSecret_hooks :: "string list" where
  "Initiator_awaitRevealSecret_hooks = [''_onEnter'', ''_onExit'']"

definition Initiator_init :: "fsm \<Rightarrow> outcome" where
  "Initiator_init m =
     returns (transition awaitRequestSecret (emit ''GOT.sendMediatedTransfer'' (client m) m))"

definition Initiator_awaitRequestSecret_receiveRequestSecret ::
  "externals \<Rightarrow> fsm \<Rightarrow> RequestSecret \<Rightarrow> outcome" where
  "Initiator_awaitRequestSecret_receiveRequestSecret X m requestSecret =
     (case RequestSecret_from X requestSecret of
        Inl e \<Rightarrow> throws e m
      | Inr sender \<Rightarrow>
          if Buffer_compare (MediatedTransfer.target (client m)) sender = 0
          then (case LockedTransfer.lock (client m) of
                  None \<Rightarrow> throws TypeError m
                | Some lk \<Rightarrow>
                    if Buffer_compare (Lock.hashLock lk) (RequestSecret.hashLock requestSecret) = 0
                       \<and> DirectTransfer.msgID (client m) = RequestSecret.msgID requestSecret
                    then (let st = (client m)\<lparr>revealTo := Some (MediatedTransfer.target (client m))\<rparr>
                          in returns (transition awaitRevealSecret
                                (emit ''GOT.sendRevealSecret'' st (m\<lparr>client := st\<rparr>))))
                    else returns m)
          else returns m)"

definition Initiator_awaitRevealSecret_receiveRevealSecret ::
  "externals \<Rightarrow> fsm \<Rightarrow> RevealSecret \<Rightarrow> outcome" where
  "Initiator_awaitRevealSecret_receiveRevealSecret X m secretReveal =
     (case RevealSecret_from X secretReveal of
        Inl e \<Rightarrow> throws e m
      | Inr sender \<Rightarrow>
          if Buffer_compare sender (DirectTransfer.to (client m)) = 0
          then (case LockedTransfer.lock (client m) of
                  None \<Rightarrow> throws TypeError m
                | Some lk \<Rightarrow>
                    if Buffer_compare (Lock.hashLock lk) (sha3 X (RevealSecret.secret secretReveal)) = 0
                    then returns (transition completedTransfer
                           (emit ''GOT.sendSecretToProof'' (client m) m))
                    else returns m)
          else returns m)"

text \<open>
  \<open>handle\<close>, state by state as the factory lists them. The hooks are also run by machina
  on a state change, where they do nothing. A label that is no state of the machine has no
  state object, and looking a handler up in it raises a \<open>TypeError\<close>.
\<close>

definition Initiator_handle :: "externals \<Rightarrow> fsm \<Rightarrow> event \<Rightarrow> outcome" where
  "Initiator_handle X m ev =
     (case state m of
        init \<Rightarrow> handler_or_catch_all Initiator_init_hooks (Some Initiator_init) ev m
      | awaitRequestSecret \<Rightarrow>
          (case ev of
             receiveRequestSecret requestSecret \<Rightarrow>
               Initiator_awaitRequestSecret_receiveRequestSecret X m requestSecret
           | _ \<Rightarrow> handler_or_catch_all [] None ev m)
      | awaitRevealSecret \<Rightarrow>
          (case ev of
             receiveRevealSecret secretReveal \<Rightarrow>
               Initiator_awaitRevealSecret_receiveRevealSecret X m secretReveal
           | _ \<Rightarrow> handler_or_catch_all Initiator_awaitRevealSecret_hooks None ev m)
      | completedTransfer \<Rightarrow> handler_or_catch_all [] None ev m
      | failedTransfer \<Rightarrow> handler_or_catch_all [] None ev m
      | expiredTransfer \<Rightarrow> handler_or_catch_all [] None ev m
      | awaitSecretToProof \<Rightarrow> throws TypeError m)"

subsection \<open>TargetFactory\<close>

definition Target_init_hooks :: "string list" where
  "Target_init_hooks = [''_onExit'']"

definition Target_awaitRevealSecret_hooks :: "string list" where
  "Target_awaitRevealSecret_hooks = [''_onEnter'', ''_onExit'']"

text \<open>
  The test \<open>state.lock.expiration.lte(currentBlock.add(channel.REVEAL_TIMEOUT))\<close> that three
  handlers share. It reads \<open>state.lock.expiration\<close> first and then calls
  \<open>currentBlock.add\<close>; either can raise a \<open>TypeError\<close>.
\<close>

definition lock_expired :: "externals \<Rightarrow> TransferState \<Rightarrow> int option \<Rightarrow> error + bool" where
  "lock_expired X st currentBlock =
     (case LockedTransfer.lock st of
        None \<Rightarrow> Inl TypeError
      | Some lk \<Rightarrow>
          (case currentBlock of
             None \<Rightarrow> Inl TypeError
           | Some b \<Rightarrow> Inr (Lock.expiration lk \<le> b + REVEAL_TIMEOUT X)))"

text \<open>The line the handler writes to the console is not part of the model.\<close>

definition Target_init :: "externals \<Rightarrow> fsm \<Rightarrow> event \<Rightarrow> outcome" where
  "Target_init X m ev =
     (case lock_expired X (client m) (currentBlock_of ev) of
        Inl e \<Rightarrow> throws e m
      | Inr expired \<Rightarrow>
          if expired
          then returns (transition expiredTransfer m)
          else returns (transition awaitRevealSecret (emit ''GOT.sendRequestSecret'' (client m) m)))"

definition Target_awaitRevealSecret_receiveRevealSecret ::
  "externals \<Rightarrow> fsm \<Rightarrow> RevealSecret \<Rightarrow> outcome" where
  "Target_awaitRevealSecret_receiveRevealSecret X m revealSecret =
     (case LockedTransfer.lock (client m) of
        None \<Rightarrow> throws TypeError m
      | Some lk \<Rightarrow>
          if Buffer_compare (Lock.hashLock lk) (sha3 X (RevealSecret.secret revealSecret)) = 0
          then (case RevealSecret_from X revealSecret of
                  Inl e \<Rightarrow> throws e m
                | Inr sender \<Rightarrow>
                    if Buffer_compare (MediatedTransfer.initiator (client m)) sender = 0
                    then (case MediatedTransfer_from X (client m) of
                            Inl e \<Rightarrow> throws e m
                          | Inr stateFrom \<Rightarrow>
                              (let st = (client m)\<lparr>TransferState.secret :=
                                                      Some (RevealSecret.secret revealSecret),
                                                    revealTo := Some stateFrom\<rparr>
                               in returns (transition awaitSecretToProof
                                     (emit ''GOT.sendRevealSecret'' st (m\<lparr>client := st\<rparr>)))))
                    else returns m)
          else returns m)"

definition Target_awaitRevealSecret_handleBlock :: "externals \<Rightarrow> fsm \<Rightarrow> int \<Rightarrow> outcome" where
  "Target_awaitRevealSecret_handleBlock X m currentBlock =
     (case lock_expired X (client m) (Some currentBlock) of
        Inl e \<Rightarrow> throws e m
      | Inr expired \<Rightarrow>
          if expired then returns (transition expiredTransfer m) else returns m)"

definition Target_awaitSecretToProof_receiveSecretToProof ::
  "externals \<Rightarrow> fsm \<Rightarrow> SecretToProof \<Rightarrow> outcome" where
  "Target_awaitSecretToProof_receiveSecretToProof X m secretToProof =
     (case SecretToProof_from X secretToProof of
        Inl e \<Rightarrow> throws e m
      | Inr sender \<Rightarrow>
          (case MediatedTransfer_from X (client m) of
             Inl e \<Rightarrow> throws e m
           | Inr stateFrom \<Rightarrow>
               if Buffer_compare sender stateFrom = 0
               then returns (transition completedTransfer
                      (emit ''GOT.receiveSecretToProof'' (client m) m))
               else returns m))"

definition Target_awaitSecretToProof_handleBlock :: "externals \<Rightarrow> fsm \<Rightarrow> int \<Rightarrow> outcome" where
  "Target_awaitSecretToProof_handleBlock X m currentBlock =
     (case lock_expired X (client m) (Some currentBlock) of
        Inl e \<Rightarrow> throws e m
      | Inr expired \<Rightarrow>
          if expired
          then returns (transition completedTransfer (emit ''GOT.closeChannel'' (client m) m))
          else returns m)"

definition Target_handle :: "externals \<Rightarrow> fsm \<Rightarrow> event \<Rightarrow> outcome" where
  "Target_handle X m ev =
     (case state m of
        init \<Rightarrow>
          handler_or_catch_all Target_init_hooks (Some (\<lambda>m'. Target_init X m' ev)) ev m
      | awaitRevealSecret \<Rightarrow>
          (case ev of
             receiveRevealSecret revealSecret \<Rightarrow>
               Target_awaitRevealSecret_receiveRevealSecret X m revealSecret
           | handleBlock currentBlock \<Rightarrow> Target_awaitRevealSecret_handleBlock X m currentBlock
           | _ \<Rightarrow> handler_or_catch_all Target_awaitRevealSecret_hooks None ev m)
      | awaitSecretToProof \<Rightarrow>
          (case ev of
             receiveSecretToProof secretToProof \<Rightarrow>
               Target_awaitSecretToProof_receiveSecretToProof X m secretToProof
           | handleBlock currentBlock \<Rightarrow> Target_awaitSecretToProof_handleBlock X m currentBlock
           | _ \<Rightarrow> handler_or_catch_all [] None ev m)
      | completedTransfer \<Rightarrow> handler_or_catch_all [] None ev m
      | expiredTransfer \<Rightarrow> handler_or_catch_all [] None ev m
      | awaitRequestSecret \<Rightarrow> throws TypeError m
      | failedTransfer \<Rightarrow> throws TypeError m)"

section \<open>Notions used by the properties\<close>

subsection \<open>The matching conditions as the specification writes them\<close>

text \<open>
  \<open>rs.sender == state.target \<and> rs.hashLock == state.lock.hashLock \<and> rs.msgID == state.msgID\<close>;
  \<open>rv.sender == state.to \<and> hash(rv.secret) == state.lock.hashLock\<close>;
  \<open>p.sender == state.from\<close>; \<open>lock.expiration \<le> currentBlock + RevealTimeout\<close>. A sender
  that cannot be derived equals nothing, and neither does the hash lock of a lock that is
  not there.
\<close>

definition spec_RequestSecret_matches :: "externals \<Rightarrow> TransferState \<Rightarrow> RequestSecret \<Rightarrow> bool" where
  "spec_RequestSecret_matches X st rs =
     (RequestSecret_from X rs = Inr (MediatedTransfer.target st)
      \<and> map_option Lock.hashLock (LockedTransfer.lock st) = Some (RequestSecret.hashLock rs)
      \<and> DirectTransfer.msgID st = RequestSecret.msgID rs)"

definition spec_RevealSecret_matches :: "externals \<Rightarrow> TransferState \<Rightarrow> RevealSecret \<Rightarrow> bool" where
  "spec_RevealSecret_matches X st rv =
     (RevealSecret_from X rv = Inr (DirectTransfer.to st)
      \<and> map_option Lock.hashLock (LockedTransfer.lock st) = Some (sha3 X (RevealSecret.secret rv)))"

definition spec_SecretToProof_matches :: "externals \<Rightarrow> TransferState \<Rightarrow> SecretToProof \<Rightarrow> bool" where
  "spec_SecretToProof_matches X st p =
     (case (SecretToProof_from X p, MediatedTransfer_from X st) of
        (Inr a, Inr b) \<Rightarrow> a = b
      | _ \<Rightarrow> False)"

definition spec_expired :: "externals \<Rightarrow> Lock \<Rightarrow> int \<Rightarrow> bool" where
  "spec_expired X lk currentBlock = (Lock.expiration lk \<le> currentBlock + REVEAL_TIMEOUT X)"


subsection \<open>Matched events, side-effects and state moves\<close>








subsection \<open>Hash pre-images as the specification lists them\<close>

text \<open>
  The specification gives a pre-image as a tuple of typed fields. \<open>DirectTransfer\<close>:
  (msgID:u256, nonce:u256, transferredAmount:u256, channelAddress:addr, locksRoot:bytes32,
  to:addr); \<open>LockedTransfer\<close>: these fields and the hash of the lock; \<open>MediatedTransfer\<close>:
  these fields, target:addr, initiator:addr and the hash of the lock; \<open>RequestSecret\<close>:
  (msgID:u256, to:addr, hashLock:bytes32, amount:u256).
\<close>

definition spec_DirectTransfer_preimage :: "'a DirectTransfer_scheme \<Rightarrow> (sol_type \<times> sol_value) list" where
  "spec_DirectTransfer_preimage this =
     [(uint256, BNv (DirectTransfer.msgID this)),
      (uint256, BNv (ProofMessage.nonce this)),
      (uint256, BNv (ProofMessage.transferredAmount this)),
      (address, Bufv (ProofMessage.channelAddress this)),
      (bytes32, Bufv (ProofMessage.locksRoot this)),
      (address, Bufv (DirectTransfer.to this))]"

definition spec_LockedTransfer_preimage ::
  "'a LockedTransfer_scheme \<Rightarrow> buffer \<Rightarrow> (sol_type \<times> sol_value) list" where
  "spec_LockedTransfer_preimage this lockHash =
     spec_DirectTransfer_preimage this @ [(bytes32, Bufv lockHash)]"

definition spec_MediatedTransfer_preimage ::
  "'a MediatedTransfer_scheme \<Rightarrow> buffer \<Rightarrow> (sol_type \<times> sol_value) list" where
  "spec_MediatedTransfer_preimage this lockHash =
     spec_DirectTransfer_preimage this @
     [(address, Bufv (MediatedTransfer.target this)),
      (address, Bufv (MediatedTransfer.initiator this)),
      (bytes32, Bufv lockHash)]"

definition spec_RequestSecret_preimage :: "'a RequestSecret_scheme \<Rightarrow> (sol_type \<times> sol_value) list" where
  "spec_RequestSecret_preimage this =
     [(uint256, BNv (RequestSecret.msgID this)),
      (address, Bufv (RequestSecret.to this)),
      (bytes32, Bufv (RequestSecret.hashLock this)),
      (uint256, BNv (RequestSecret.amount this))]"

subsection \<open>Round trips through the wire format\<close>

text \<open>
  A value \<open>round_trips_to\<close> what \<open>JSON.parse\<close> with the reviver makes of the document
  \<open>JSON.stringify\<close> writes for it, provided it is written at all;
  \<open>props_round_trip\<close> is the same for the properties of an object.
\<close>

definition round_trips_to :: "externals \<Rightarrow> jsval \<Rightarrow> jsval \<Rightarrow> bool" where
  "round_trips_to X jv w =
     (JSON_stringify X jv \<noteq> JUndefined \<and> JSON_parse X (JSON_stringify X jv) = w)"

definition props_round_trip :: "externals \<Rightarrow> (string \<times> jsval) list \<Rightarrow> (string \<times> jsval) list" where
  "props_round_trip X kvs =
     map (map_prod id (JSON_parse X))
       (filter (\<lambda>kv. snd kv \<noteq> JUndefined) (map (map_prod id (JSON_stringify X)) kvs))"

subsection \<open>Concrete inputs\<close>

text \<open>
  One choice of the imported functions and the transfer of the specification's end-to-end
  scenario, for evaluating the theorems at concrete inputs. The stand-in for
  \<open>soliditySHA3\<close> concatenates the values, the one for \<open>sha3\<close> reverses the bytes, and
  the recovered address is the \<open>r\<close> of the signature, so \<open>signed_by a\<close> is a signature
  of the party with address \<open>a\<close>. Of bn.js the examples only use that
  \<open>new BN(undefined, 16)\<close> is zero.
\<close>

definition sample_externals :: externals where
  "sample_externals =
     \<lparr>soliditySHA3 = (\<lambda>types values.
         Inr (concat (map (\<lambda>x. case x of BNv n \<Rightarrow> [word_of_int n] | Bufv b \<Rightarrow> b) values))),
      sha3 = (\<lambda>b. rev b),
      ecrecover = (\<lambda>h v r s. Inr r),
      pubToAddress = (\<lambda>pk. Inr pk),
      REVEAL_TIMEOUT = 10,
      BN_new16 = (\<lambda>value. Inr (case the_JNum value of Some n \<Rightarrow> n | None \<Rightarrow> 0)),
      BN_toString16 = (\<lambda>n. ''0''),
      ToUint8 = (\<lambda>value. 0)\<rparr>"

definition addr :: "byte \<Rightarrow> buffer" where
  "addr x = replicate 20 x"

definition signed_by :: "buffer \<Rightarrow> Signature option" where
  "signed_by a = Some \<lparr>sig_r = a, sig_s = [], sig_v = 27\<rparr>"

definition sample_secret :: buffer where
  "sample_secret = [1, 2, 3]"

definition sample_lock :: Lock where
  "sample_lock = \<lparr>Lock.amount = 50, Lock.expiration = 1000, Lock.hashLock = [3, 2, 1]\<rparr>"

definition sample_transfer :: TransferState where
  "sample_transfer =
     \<lparr>signature = signed_by (addr 0xEE),
      ProofMessage.nonce = 1, ProofMessage.transferredAmount = 100,
      ProofMessage.locksRoot = EMPTY_32BYTE_BUFFER, ProofMessage.channelAddress = addr 0xAA,
      ProofMessage.messageHash = EMPTY_32BYTE_BUFFER,
      DirectTransfer.msgID = 1, DirectTransfer.to = addr 0xBB,
      lock = Some sample_lock,
      target = addr 0xCC, initiator = addr 0xDD,
      TransferState.secret = None, revealTo = None\<rparr>"

definition sample_fsm :: "label \<Rightarrow> fsm" where
  "sample_fsm l = \<lparr>client = sample_transfer, state = l, emitted = [], moved = []\<rparr>"

definition sample_RequestSecret :: "buffer \<Rightarrow> RequestSecret" where
  "sample_RequestSecret sender =
     \<lparr>signature = signed_by sender,
      RequestSecret.msgID = 1, RequestSecret.to = addr 0xDD,
      RequestSecret.hashLock = [3, 2, 1], RequestSecret.amount = 50\<rparr>"

definition sample_RevealSecret :: "buffer \<Rightarrow> buffer \<Rightarrow> RevealSecret" where
  "sample_RevealSecret sender scrt =
     \<lparr>signature = signed_by sender, RevealSecret.secret = scrt, RevealSecret.to = addr 0xDD\<rparr>"

definition sample_SecretToProof :: "buffer \<Rightarrow> SecretToProof" where
  "sample_SecretToProof sender =
     \<lparr>signature = signed_by sender,
      ProofMessage.nonce = 2, ProofMessage.transferredAmount = 150,
      ProofMessage.locksRoot = EMPTY_32BYTE_BUFFER, ProofMessage.channelAddress = addr 0xAA,
      ProofMessage.messageHash = EMPTY_32BYTE_BUFFER,
      SecretToProof.msgID = 2, SecretToProof.to = addr 0xCC,
      SecretToProof.secret = sample_secret\<rparr>"

section \<open>Properties of the state machines\<close>

lemma Buffer_compare_eq_0: "Buffer_compare a b = 0 \<longleftrightarrow> a = b"
  by (induction a b rule: Buffer_compare.induct) auto

subsection \<open>Facts about the concrete inputs\<close>

lemma sample_fsm_sel:
  "client (sample_fsm l) = sample_transfer" "state (sample_fsm l) = l"
  "emitted (sample_fsm l) = []" "moved (sample_fsm l) = []"
  by (simp_all add: sample_fsm_def)

lemma sample_transfer_sel:
  "LockedTransfer.lock sample_transfer = Some sample_lock"
  "MediatedTransfer.target sample_transfer = addr 0xCC"
  "MediatedTransfer.initiator sample_transfer = addr 0xDD"
  "DirectTransfer.to sample_transfer = addr 0xBB"
  "DirectTransfer.msgID sample_transfer = 1"
  "signature sample_transfer = signed_by (addr 0xEE)"
  by (simp_all add: sample_transfer_def)

lemma sample_senders:
  "RequestSecret_from sample_externals (sample_RequestSecret a) = Inr a"
  "RevealSecret_from sample_externals (sample_RevealSecret a sc) = Inr a"
  "SecretToProof_from sample_externals (sample_SecretToProof a) = Inr a"
  "MediatedTransfer_from sample_externals sample_transfer = Inr (addr 0xEE)"
  by (simp_all add: RequestSecret_from_def RevealSecret_from_def SecretToProof_from_def
      MediatedTransfer_from_def SignedMessage_from_def SignedMessage_recoverAddress_def
      RequestSecret_getHash_def RevealSecret_getHash_def ProofMessage_getHash_def
      SecretToProof_getMessageHash_def MediatedTransfer_getMessageHash_def Lock_getMessageHash_def
      sample_externals_def sample_RequestSecret_def sample_RevealSecret_def
      sample_SecretToProof_def sample_transfer_def signed_by_def)

lemma addr_eq: "addr x = addr y \<longleftrightarrow> x = y"
  by (simp add: addr_def)

subsection \<open>Input names\<close>







subsection \<open>The Target in \<open>init\<close>\<close>




subsection \<open>The Initiator in \<open>awaitRequestSecret\<close>\<close>

lemma Initiator_awaitRequestSecret_eq:
  assumes "state m = awaitRequestSecret"
  shows "Initiator_handle X m (receiveRequestSecret rs) =
     (if spec_RequestSecret_matches X (client m) rs
      then (m\<lparr>client := (client m)\<lparr>revealTo := Some (MediatedTransfer.target (client m))\<rparr>,
              emitted := emitted m @ [(''GOT.sendRevealSecret'',
                 (client m)\<lparr>revealTo := Some (MediatedTransfer.target (client m))\<rparr>)],
              state := awaitRevealSecret,
              moved := moved m @ [(awaitRequestSecret, awaitRevealSecret)]\<rparr>, None)
      else (m, case RequestSecret_from X rs of
                 Inl e \<Rightarrow> Some e
               | Inr a \<Rightarrow> if a = MediatedTransfer.target (client m) \<and> LockedTransfer.lock (client m) = None
                          then Some TypeError else None))"
  using assms
  by (auto simp add: Initiator_handle_def Initiator_awaitRequestSecret_receiveRequestSecret_def
      spec_RequestSecret_matches_def
      returns_def throws_def transition_def emit_def Buffer_compare_eq_0 Let_def
      split: sum.splits option.splits)

text \<open>
  C2. The Initiator in state \<open>awaitRequestSecret\<close>, on a received \<open>RequestSecret\<close>
  \<open>rs\<close>: the machine leaves the state if and only if the sender of \<open>rs\<close> is
  \<open>state.target\<close>, its \<open>hashLock\<close> is \<open>state.lock.hashLock\<close> and its \<open>msgID\<close> is
  \<open>state.msgID\<close>. On a match it records \<open>revealTo = state.target\<close>, emits
  \<open>GOT.sendRevealSecret\<close> with that record and moves to \<open>awaitRevealSecret\<close>; otherwise
  label, record and the emitted side-effects are what they were.
\<close>

theorem Initiator_awaitRequestSecret_transition:
  assumes "state m = awaitRequestSecret"
  shows "(state (fst (Initiator_handle X m (receiveRequestSecret rs))) \<noteq> awaitRequestSecret
            \<longleftrightarrow> spec_RequestSecret_matches X (client m) rs)
       \<and> (spec_RequestSecret_matches X (client m) rs \<longrightarrow>
            Initiator_handle X m (receiveRequestSecret rs) =
              (m\<lparr>client := (client m)\<lparr>revealTo := Some (MediatedTransfer.target (client m))\<rparr>,
                 emitted := emitted m @ [(''GOT.sendRevealSecret'',
                    (client m)\<lparr>revealTo := Some (MediatedTransfer.target (client m))\<rparr>)],
                 state := awaitRevealSecret,
                 moved := moved m @ [(awaitRequestSecret, awaitRevealSecret)]\<rparr>, None))
       \<and> (\<not> spec_RequestSecret_matches X (client m) rs \<longrightarrow>
            fst (Initiator_handle X m (receiveRequestSecret rs)) = m)"
  using assms by (simp add: Initiator_awaitRequestSecret_eq)

theorem Initiator_awaitRequestSecret_transition_witness:
  "Initiator_handle sample_externals (sample_fsm awaitRequestSecret)
       (receiveRequestSecret (sample_RequestSecret (addr 0xCC))) =
     (\<lparr>client = sample_transfer\<lparr>revealTo := Some (addr 0xCC)\<rparr>,
       state = awaitRevealSecret,
       emitted = [(''GOT.sendRevealSecret'', sample_transfer\<lparr>revealTo := Some (addr 0xCC)\<rparr>)],
       moved = [(awaitRequestSecret, awaitRevealSecret)]\<rparr>, None)
   \<and> fst (Initiator_handle sample_externals (sample_fsm awaitRequestSecret)
       (receiveRequestSecret (sample_RequestSecret (addr 0xBB)))) = sample_fsm awaitRequestSecret"
proof -
  have a: "spec_RequestSecret_matches sample_externals sample_transfer (sample_RequestSecret (addr 0xCC))"
    by (simp add: spec_RequestSecret_matches_def sample_senders sample_transfer_sel)
       (simp add: sample_RequestSecret_def sample_lock_def)
  have b: "\<not> spec_RequestSecret_matches sample_externals sample_transfer (sample_RequestSecret (addr 0xBB))"
    by (simp add: spec_RequestSecret_matches_def sample_senders sample_transfer_sel addr_eq)
  show ?thesis
    using Initiator_awaitRequestSecret_transition
            [of "sample_fsm awaitRequestSecret" sample_externals "sample_RequestSecret (addr 0xCC)"]
          Initiator_awaitRequestSecret_transition
            [of "sample_fsm awaitRequestSecret" sample_externals "sample_RequestSecret (addr 0xBB)"]
    by (simp add: a b sample_fsm_sel sample_transfer_sel)
qed

subsection \<open>The Initiator in \<open>awaitRevealSecret\<close>\<close>

lemma Initiator_awaitRevealSecret_eq:
  assumes "state m = awaitRevealSecret"
  shows "Initiator_handle X m (receiveRevealSecret rv) =
     (if spec_RevealSecret_matches X (client m) rv
      then (m\<lparr>emitted := emitted m @ [(''GOT.sendSecretToProof'', client m)],
              state := completedTransfer,
              moved := moved m @ [(awaitRevealSecret, completedTransfer)]\<rparr>, None)
      else (m, case RevealSecret_from X rv of
                 Inl e \<Rightarrow> Some e
               | Inr a \<Rightarrow> if a = DirectTransfer.to (client m) \<and> LockedTransfer.lock (client m) = None
                          then Some TypeError else None))"
  using assms
  by (auto simp add: Initiator_handle_def Initiator_awaitRevealSecret_receiveRevealSecret_def
      spec_RevealSecret_matches_def
      returns_def throws_def transition_def emit_def Buffer_compare_eq_0
      split: sum.splits option.splits)

text \<open>
  C3. The Initiator in state \<open>awaitRevealSecret\<close>, on a received \<open>RevealSecret\<close>
  \<open>rv\<close>: the machine leaves the state if and only if the sender of \<open>rv\<close> is
  \<open>state.to\<close> and the hash of \<open>rv.secret\<close> is \<open>state.lock.hashLock\<close>; it then emits
  \<open>GOT.sendSecretToProof\<close> and moves to \<open>completedTransfer\<close>. A \<open>RevealSecret\<close> whose
  secret does not hash to the hash lock leaves the machine as it was.
\<close>

theorem Initiator_awaitRevealSecret_transition:
  assumes "state m = awaitRevealSecret"
  shows "(state (fst (Initiator_handle X m (receiveRevealSecret rv))) \<noteq> awaitRevealSecret
            \<longleftrightarrow> spec_RevealSecret_matches X (client m) rv)
       \<and> (spec_RevealSecret_matches X (client m) rv \<longrightarrow>
            Initiator_handle X m (receiveRevealSecret rv) =
              (m\<lparr>emitted := emitted m @ [(''GOT.sendSecretToProof'', client m)],
                 state := completedTransfer,
                 moved := moved m @ [(awaitRevealSecret, completedTransfer)]\<rparr>, None))
       \<and> (map_option Lock.hashLock (LockedTransfer.lock (client m))
              \<noteq> Some (sha3 X (RevealSecret.secret rv)) \<longrightarrow>
            fst (Initiator_handle X m (receiveRevealSecret rv)) = m)"
proof -
  have "\<not> spec_RevealSecret_matches X (client m) rv"
    if "map_option Lock.hashLock (LockedTransfer.lock (client m))
          \<noteq> Some (sha3 X (RevealSecret.secret rv))"
    using that by (simp add: spec_RevealSecret_matches_def)
  with assms show ?thesis
    by (auto simp add: Initiator_awaitRevealSecret_eq)
qed

theorem Initiator_awaitRevealSecret_transition_witness:
  "Initiator_handle sample_externals (sample_fsm awaitRevealSecret)
       (receiveRevealSecret (sample_RevealSecret (addr 0xBB) [1, 2, 3])) =
     ((sample_fsm awaitRevealSecret)
        \<lparr>emitted := emitted (sample_fsm awaitRevealSecret) @
                      [(''GOT.sendSecretToProof'', client (sample_fsm awaitRevealSecret))],
         state := completedTransfer,
         moved := moved (sample_fsm awaitRevealSecret) @ [(awaitRevealSecret, completedTransfer)]\<rparr>,
      None)
   \<and> fst (Initiator_handle sample_externals (sample_fsm awaitRevealSecret)
       (receiveRevealSecret (sample_RevealSecret (addr 0xBB) [9, 9, 9]))) = sample_fsm awaitRevealSecret"
proof -
  have st: "state (sample_fsm awaitRevealSecret) = awaitRevealSecret"
    by (simp add: sample_fsm_sel)
  have a: "spec_RevealSecret_matches sample_externals (client (sample_fsm awaitRevealSecret))
             (sample_RevealSecret (addr 0xBB) [1, 2, 3])"
    by (simp add: spec_RevealSecret_matches_def sample_senders sample_transfer_sel sample_fsm_sel)
       (simp add: sample_RevealSecret_def sample_lock_def sample_externals_def)
  have b: "map_option Lock.hashLock (LockedTransfer.lock (client (sample_fsm awaitRevealSecret)))
             \<noteq> Some (sha3 sample_externals (RevealSecret.secret (sample_RevealSecret (addr 0xBB) [9, 9, 9])))"
    by (simp add: sample_transfer_sel sample_fsm_sel sample_RevealSecret_def sample_lock_def
        sample_externals_def)
  from Initiator_awaitRevealSecret_transition
         [OF st, of sample_externals "sample_RevealSecret (addr 0xBB) [1, 2, 3]"] a
       Initiator_awaitRevealSecret_transition
         [OF st, of sample_externals "sample_RevealSecret (addr 0xBB) [9, 9, 9]"] b
  show ?thesis by blast
qed

subsection \<open>The Target in \<open>awaitSecretToProof\<close>\<close>

lemma Target_awaitSecretToProof_receive_eq:
  assumes "state m = awaitSecretToProof"
  shows "Target_handle X m (receiveSecretToProof p) =
     (if spec_SecretToProof_matches X (client m) p
      then (m\<lparr>emitted := emitted m @ [(''GOT.receiveSecretToProof'', client m)],
              state := completedTransfer,
              moved := moved m @ [(awaitSecretToProof, completedTransfer)]\<rparr>, None)
      else (m, case SecretToProof_from X p of
                 Inl e \<Rightarrow> Some e
               | Inr a \<Rightarrow> (case MediatedTransfer_from X (client m) of
                             Inl e \<Rightarrow> Some e
                           | Inr c \<Rightarrow> None)))"
proof (cases "SecretToProof_from X p")
  case (Inl e)
  with assms show ?thesis
    by (simp add: Target_handle_def Target_awaitSecretToProof_receiveSecretToProof_def
        spec_SecretToProof_matches_def throws_def)
next
  case (Inr sender)
  show ?thesis
  proof (cases "MediatedTransfer_from X (client m)")
    case (Inl e)
    with Inr assms show ?thesis
      by (simp add: Target_handle_def Target_awaitSecretToProof_receiveSecretToProof_def
          spec_SecretToProof_matches_def throws_def)
  next
    case stateFrom: (Inr c)
    with Inr assms show ?thesis
      by (simp add: Target_handle_def Target_awaitSecretToProof_receiveSecretToProof_def
          spec_SecretToProof_matches_def returns_def transition_def emit_def Buffer_compare_eq_0)
  qed
qed

lemma Target_awaitSecretToProof_handleBlock_eq:
  assumes "state m = awaitSecretToProof" and "LockedTransfer.lock (client m) = Some lk"
  shows "Target_handle X m (handleBlock b) =
     (if spec_expired X lk b
      then (m\<lparr>emitted := emitted m @ [(''GOT.closeChannel'', client m)],
              state := completedTransfer,
              moved := moved m @ [(awaitSecretToProof, completedTransfer)]\<rparr>, None)
      else (m, None))"
  using assms
  by (simp add: Target_handle_def Target_awaitSecretToProof_handleBlock_def lock_expired_def
      spec_expired_def returns_def transition_def emit_def)

text \<open>
  C4. The Target in state \<open>awaitSecretToProof\<close>. On a received \<open>SecretToProof\<close> \<open>p\<close>
  it leaves the state if and only if the sender of \<open>p\<close> is \<open>state.from\<close>, emitting
  \<open>GOT.receiveSecretToProof\<close> and moving to \<open>completedTransfer\<close>. On \<open>handleBlock\<close>
  with \<open>lock.expiration \<le> currentBlock + REVEAL_TIMEOUT\<close> it emits \<open>GOT.closeChannel\<close>
  and moves to \<open>completedTransfer\<close>.
\<close>

theorem Target_awaitSecretToProof_transition:
  assumes "state m = awaitSecretToProof"
  shows "(state (fst (Target_handle X m (receiveSecretToProof p))) \<noteq> awaitSecretToProof
            \<longleftrightarrow> spec_SecretToProof_matches X (client m) p)
       \<and> (spec_SecretToProof_matches X (client m) p \<longrightarrow>
            Target_handle X m (receiveSecretToProof p) =
              (m\<lparr>emitted := emitted m @ [(''GOT.receiveSecretToProof'', client m)],
                 state := completedTransfer,
                 moved := moved m @ [(awaitSecretToProof, completedTransfer)]\<rparr>, None))
       \<and> (LockedTransfer.lock (client m) = Some lk \<and> spec_expired X lk b \<longrightarrow>
            Target_handle X m (handleBlock b) =
              (m\<lparr>emitted := emitted m @ [(''GOT.closeChannel'', client m)],
                 state := completedTransfer,
                 moved := moved m @ [(awaitSecretToProof, completedTransfer)]\<rparr>, None))"
  using assms
  by (simp add: Target_awaitSecretToProof_receive_eq Target_awaitSecretToProof_handleBlock_eq)

theorem Target_awaitSecretToProof_transition_witness:
  "Target_handle sample_externals (sample_fsm awaitSecretToProof)
       (receiveSecretToProof (sample_SecretToProof (addr 0xEE))) =
     (\<lparr>client = sample_transfer,
       state = completedTransfer,
       emitted = [(''GOT.receiveSecretToProof'', sample_transfer)],
       moved = [(awaitSecretToProof, completedTransfer)]\<rparr>, None)
   \<and> state (fst (Target_handle sample_externals (sample_fsm awaitSecretToProof)
       (receiveSecretToProof (sample_SecretToProof (addr 0xBB))))) = awaitSecretToProof
   \<and> Target_handle sample_externals (sample_fsm awaitSecretToProof) (handleBlock 995) =
     (\<lparr>client = sample_transfer,
       state = completedTransfer,
       emitted = [(''GOT.closeChannel'', sample_transfer)],
       moved = [(awaitSecretToProof, completedTransfer)]\<rparr>, None)"
proof -
  have a: "spec_SecretToProof_matches sample_externals sample_transfer (sample_SecretToProof (addr 0xEE))"
    and b: "\<not> spec_SecretToProof_matches sample_externals sample_transfer (sample_SecretToProof (addr 0xBB))"
    by (simp_all add: spec_SecretToProof_matches_def sample_senders addr_eq)
  have c: "spec_expired sample_externals sample_lock 995"
    by (simp add: spec_expired_def sample_lock_def sample_externals_def)
  show ?thesis
    using Target_awaitSecretToProof_transition
            [of "sample_fsm awaitSecretToProof" sample_externals "sample_SecretToProof (addr 0xEE)"
                sample_lock 995]
          Target_awaitSecretToProof_transition
            [of "sample_fsm awaitSecretToProof" sample_externals "sample_SecretToProof (addr 0xBB)"
                sample_lock 995]
    by (simp add: a b c sample_fsm_sel sample_transfer_sel)
qed

subsection \<open>Side-effects and state moves of one call\<close>



















section \<open>Properties of the message layer\<close>

subsection \<open>Hash pre-images\<close>

text \<open>
  C5. The hash of a \<open>MediatedTransfer\<close> is taken over the fields \<open>LockedTransfer\<close>
  hashes before its lock hash (msgID, nonce, transferredAmount, channelAddress, locksRoot,
  to), then \<open>target\<close> and \<open>initiator\<close> as addresses, then the hash of the lock: the
  pre-image of the \<open>LockedTransfer\<close> with \<open>target\<close> and \<open>initiator\<close> put in before the
  lock hash, so everything the \<open>LockedTransfer\<close> hash covers is covered, and the two
  addresses as well.
\<close>

theorem MediatedTransfer_hash_preimage:
  assumes "LockedTransfer.lock this = Some lk" and "Lock_getMessageHash X lk = Inr lh"
  shows "MediatedTransfer_getMessageHash X this =
           soliditySHA3 X (map fst (spec_MediatedTransfer_preimage this lh))
                          (map snd (spec_MediatedTransfer_preimage this lh))
       \<and> LockedTransfer_getMessageHash X this =
           soliditySHA3 X (map fst (spec_LockedTransfer_preimage this lh))
                          (map snd (spec_LockedTransfer_preimage this lh))
       \<and> spec_MediatedTransfer_preimage this lh =
           butlast (spec_LockedTransfer_preimage this lh)
           @ [(address, Bufv (MediatedTransfer.target this)),
              (address, Bufv (MediatedTransfer.initiator this))]
           @ [last (spec_LockedTransfer_preimage this lh)]
       \<and> set (spec_LockedTransfer_preimage this lh) \<subseteq> set (spec_MediatedTransfer_preimage this lh)"
  using assms
  by (simp add: MediatedTransfer_getMessageHash_def LockedTransfer_getMessageHash_def
      spec_MediatedTransfer_preimage_def spec_LockedTransfer_preimage_def
      spec_DirectTransfer_preimage_def)

theorem MediatedTransfer_hash_preimage_witness:
  "Lock_getMessageHash sample_externals sample_lock = Inr [50, 232, 3, 2, 1]
   \<and> MediatedTransfer_getMessageHash sample_externals sample_transfer =
       soliditySHA3 sample_externals
         (map fst (spec_MediatedTransfer_preimage sample_transfer [50, 232, 3, 2, 1]))
         (map snd (spec_MediatedTransfer_preimage sample_transfer [50, 232, 3, 2, 1]))
   \<and> (address, Bufv (addr 0xCC)) \<in> set (spec_MediatedTransfer_preimage sample_transfer [50, 232, 3, 2, 1])"
proof -
  have a: "LockedTransfer.lock sample_transfer = Some sample_lock"
    by (simp add: sample_transfer_def)
  have b: "Lock_getMessageHash sample_externals sample_lock = Inr [50, 232, 3, 2, 1]"
    by (simp add: Lock_getMessageHash_def sample_externals_def sample_lock_def)
  have c: "(address, Bufv (addr 0xCC))
            \<in> set (spec_MediatedTransfer_preimage sample_transfer [50, 232, 3, 2, 1])"
    by (simp add: spec_MediatedTransfer_preimage_def sample_transfer_def)
  from MediatedTransfer_hash_preimage [OF a b] b c show ?thesis by blast
qed

text \<open>
  C6. The hash of a \<open>RequestSecret\<close> is taken over exactly (msgID:u256, to:addr,
  hashLock:bytes32, amount:u256). No expiration is part of it: two \<open>RequestSecret\<close>s that
  agree on these four fields have the same hash, whatever else they carry (any further
  data, such as an expiration, and the signature).
\<close>

theorem RequestSecret_hash_preimage:
  fixes a :: "'a RequestSecret_scheme" and b :: "'b RequestSecret_scheme"
  assumes "RequestSecret.msgID a = RequestSecret.msgID b"
    and "RequestSecret.to a = RequestSecret.to b"
    and "RequestSecret.hashLock a = RequestSecret.hashLock b"
    and "RequestSecret.amount a = RequestSecret.amount b"
  shows "RequestSecret_getHash X a =
           soliditySHA3 X [uint256, address, bytes32, uint256]
             [BNv (RequestSecret.msgID a), Bufv (RequestSecret.to a),
              Bufv (RequestSecret.hashLock a), BNv (RequestSecret.amount a)]
       \<and> map fst (spec_RequestSecret_preimage a) = [uint256, address, bytes32, uint256]
       \<and> map snd (spec_RequestSecret_preimage a) =
             [BNv (RequestSecret.msgID a), Bufv (RequestSecret.to a),
              Bufv (RequestSecret.hashLock a), BNv (RequestSecret.amount a)]
       \<and> RequestSecret_getHash X a = RequestSecret_getHash X b"
  using assms by (simp add: RequestSecret_getHash_def spec_RequestSecret_preimage_def)

theorem RequestSecret_hash_preimage_witness:
  "RequestSecret_getHash sample_externals
      (RequestSecret.extend (sample_RequestSecret (addr 0xCC)) (1000 :: int))
   = RequestSecret_getHash sample_externals
      (RequestSecret.extend (sample_RequestSecret (addr 0xBB)) (2000 :: int))"
proof -
  let ?a = "RequestSecret.extend (sample_RequestSecret (addr 0xCC)) (1000 :: int)"
  let ?b = "RequestSecret.extend (sample_RequestSecret (addr 0xBB)) (2000 :: int)"
  have "RequestSecret.msgID ?a = RequestSecret.msgID ?b"
    and "RequestSecret.to ?a = RequestSecret.to ?b"
    and "RequestSecret.hashLock ?a = RequestSecret.hashLock ?b"
    and "RequestSecret.amount ?a = RequestSecret.amount ?b"
    by (simp_all add: sample_RequestSecret_def RequestSecret.defs)
  from RequestSecret_hash_preimage [OF this, of sample_externals] show ?thesis by blast
qed

subsection \<open>The sender\<close>

text \<open>
  C9. On a message without a signature the getter \<open>from\<close> raises
  \<open>Error('no signature to recover address from')\<close>, whatever the class of the message
  and before its hash is computed.
\<close>

theorem SignedMessage_from_unsigned_throws:
  "SignedMessage_from X getHash (this\<lparr>signature := None\<rparr>) =
     Inl (Error ''no signature to recover address from'')"
  by (simp add: SignedMessage_from_def)

lemma SignedMessage_from_signed:
  assumes "signature this = Some sg" and "getHash = Inr h"
    and "ecrecover X h (sig_v sg) (sig_r sg) (sig_s sg) = Inr pk"
  shows "SignedMessage_from X getHash this = pubToAddress X pk"
  using assms by (simp add: SignedMessage_from_def SignedMessage_recoverAddress_def)

lemma Initiator_unsigned_RequestSecret_raises:
  assumes "state m = awaitRequestSecret"
  shows "Initiator_handle X m (receiveRequestSecret (rs\<lparr>signature := None\<rparr>)) =
           (m, Some (Error ''no signature to recover address from''))"
  using assms
  by (simp add: Initiator_handle_def Initiator_awaitRequestSecret_receiveRequestSecret_def
      RequestSecret_from_def SignedMessage_from_def throws_def)

subsection \<open>A \<open>LockedTransfer\<close> built without a lock\<close>

lemma andThen_Built:
  "andThen b f = Built y \<longleftrightarrow> (\<exists>x. b = Built x \<and> f x = Built y)"
  by (cases b) simp_all

text \<open>
  C10. When \<open>options.lock\<close> is absent or falsy, the \<open>LockedTransfer\<close> the constructor
  builds has no \<open>lock\<close> (the default \<open>Lock\<close> goes to \<open>options.lock\<close>), and
  \<open>getMessageHash\<close> on it raises a \<open>TypeError\<close> instead of returning a digest.
\<close>

theorem LockedTransfer_without_lock:
  assumes "\<not> truthy (property options ''lock'')"
    and "LockedTransfer_constructor X options = Built this"
  shows "LockedTransfer.lock this = None
       \<and> LockedTransfer_getMessageHash X this = Inl TypeError"
proof -
  from assms obtain dt where
    "this = DirectTransfer.extend dt (LockedTransfer.fields None)"
    by (auto simp add: LockedTransfer_constructor_def andThen_Built)
  then have "LockedTransfer.lock this = None"
    by (simp add: DirectTransfer.defs LockedTransfer.defs)
  then show ?thesis by (simp add: LockedTransfer_getMessageHash_def)
qed


theorem LockedTransfer_without_lock_witness:
  "LockedTransfer_constructor sample_externals
      (JObj ''Object'' [(''msgID'', JBN 1), (''to'', JBuffer (addr 0xBB))]) =
     Built \<lparr>signature = None,
            ProofMessage.nonce = 0, ProofMessage.transferredAmount = 0,
            ProofMessage.locksRoot = EMPTY_32BYTE_BUFFER,
            ProofMessage.channelAddress = EMPTY_20BYTE_BUFFER,
            ProofMessage.messageHash = EMPTY_32BYTE_BUFFER,
            DirectTransfer.msgID = 1, DirectTransfer.to = addr 0xBB,
            lock = None\<rparr>
   \<and> LockedTransfer_getMessageHash sample_externals
        \<lparr>signature = None,
         ProofMessage.nonce = 0, ProofMessage.transferredAmount = 0,
         ProofMessage.locksRoot = EMPTY_32BYTE_BUFFER,
         ProofMessage.channelAddress = EMPTY_20BYTE_BUFFER,
         ProofMessage.messageHash = EMPTY_32BYTE_BUFFER,
         DirectTransfer.msgID = 1, DirectTransfer.to = addr 0xBB,
         lock = None\<rparr> = Inl TypeError"
proof -
  let ?options = "JObj ''Object'' [(''msgID'', JBN 1), (''to'', JBuffer (addr 0xBB))]"
  have a: "\<not> truthy (property ?options ''lock'')"
    by (simp add: truthy_def property_def)
  have b: "LockedTransfer_constructor sample_externals ?options =
     Built \<lparr>signature = None,
            ProofMessage.nonce = 0, ProofMessage.transferredAmount = 0,
            ProofMessage.locksRoot = EMPTY_32BYTE_BUFFER,
            ProofMessage.channelAddress = EMPTY_20BYTE_BUFFER,
            ProofMessage.messageHash = EMPTY_32BYTE_BUFFER,
            DirectTransfer.msgID = 1, DirectTransfer.to = addr 0xBB,
            lock = None\<rparr>"
    by (simp add: LockedTransfer_constructor_def DirectTransfer_constructor_def
        ProofMessage_constructor_def SignedMessage_constructor_def Lock_constructor_def
        Signature_or_null_def Buffer_or_def TO_BN_def truthy_def property_def nullish_def
        the_JBN_def the_JBuffer_def the_JNum_def sample_externals_def
        SignedMessage.defs ProofMessage.defs DirectTransfer.defs LockedTransfer.defs)
  from LockedTransfer_without_lock [OF a b] b show ?thesis by blast
qed

subsection \<open>Serialization\<close>

lemma hasOwnProperty_JObj: "hasOwnProperty (JObj c kvs) k \<longleftrightarrow> k \<in> fst ` set kvs"
  by (simp add: hasOwnProperty_def)

lemma JSON_REVIVER_FUNC_no_type:
  "''type'' \<notin> fst ` set kvs \<Longrightarrow> JSON_REVIVER_FUNC X (JObj c kvs) = JObj c kvs"
  by (simp add: JSON_REVIVER_FUNC_def hasOwnProperty_JObj)

lemma keys_stringify:
  "fst ` set (filter (\<lambda>kv. snd kv \<noteq> JUndefined) (map (map_prod id f) kvs)) \<subseteq> fst ` set kvs"
  by force

lemma keys_parse: "fst ` set (map (map_prod id f) kvs) = fst ` set kvs"
  by force

lemma decode_without_classType:
  assumes "''classType'' \<notin> fst ` set kvs" and "''type'' \<notin> fst ` set kvs"
    and "''hasOwnProperty'' \<notin> fst ` set kvs"
  shows "DESERIALIZE_AND_DECODE_MESSAGE X (SERIALIZE X (JObj c kvs)) =
           Throws (Error ''Invalid Message: not a recoginized GOT message type'')"
proof -
  let ?doc = "filter (\<lambda>kv. snd kv \<noteq> JUndefined) (map (map_prod id (JSON_stringify X)) kvs)"
  let ?kvs = "map (map_prod id (JSON_parse X)) ?doc"
  have keys: "fst ` set ?kvs \<subseteq> fst ` set kvs"
    using keys_stringify [of "JSON_stringify X" kvs] by (simp only: keys_parse)
  with assms have no: "''classType'' \<notin> fst ` set ?kvs" "''type'' \<notin> fst ` set ?kvs"
    "''hasOwnProperty'' \<notin> fst ` set ?kvs"
    by blast+
  have "DESERIALIZE X (SERIALIZE X (JObj c kvs)) = JSON_REVIVER_FUNC X (JObj ''Object'' ?kvs)"
    by (simp add: DESERIALIZE_def SERIALIZE_def)
  also have "\<dots> = JObj ''Object'' ?kvs"
    using no(2) by (rule JSON_REVIVER_FUNC_no_type)
  finally have "DESERIALIZE X (SERIALIZE X (JObj c kvs)) = JObj ''Object'' ?kvs" .
  with no(1) no(3) show ?thesis
    by (simp add: DESERIALIZE_AND_DECODE_MESSAGE_def hasOwnProperty_JObj)
qed

text \<open>
  The kinds that extend \<open>SignedMessage\<close> and are listed in the round-trip property do
  come back as they were written, provided bn.js reads back the base-16 text it writes (and,
  for a transfer without a lock, \<open>new BN(undefined, 16)\<close> does not throw).
\<close>

lemma JSON_REVIVER_FUNC_atom:
  "JSON_REVIVER_FUNC X JUndefined = JUndefined"
  "JSON_REVIVER_FUNC X JNull = JNull"
  "JSON_REVIVER_FUNC X (JBool t) = JBool t"
  "JSON_REVIVER_FUNC X (JNum n) = JNum n"
  "JSON_REVIVER_FUNC X (JStr str) = JStr str"
  "JSON_REVIVER_FUNC X (JBN n) = JBN n"
  "JSON_REVIVER_FUNC X (JBuffer b) = JBuffer b"
  "JSON_REVIVER_FUNC X (JArr vs) = JArr vs"
  by (simp_all add: JSON_REVIVER_FUNC_def)

lemma JSON_REVIVER_FUNC_Buffer:
  "JSON_REVIVER_FUNC X (JObj c [(''type'', JStr ''Buffer''), (''data'', JArr vs)]) =
     JBuffer (util_toBuffer X vs)"
  by (simp add: JSON_REVIVER_FUNC_def hasOwnProperty_def property_def)

lemma util_toBuffer_bytes: "util_toBuffer X (map (\<lambda>x. JNum (uint x)) b) = b"
  by (simp add: util_toBuffer_def the_JNum_def comp_def)

lemma props_round_trip_Nil: "props_round_trip X [] = []"
  by (simp add: props_round_trip_def)

lemma props_round_trip_Cons:
  "round_trips_to X jv w \<Longrightarrow> props_round_trip X kvs = kvs' \<Longrightarrow>
   props_round_trip X ((k, jv) # kvs) = (k, w) # kvs'"
  by (auto simp add: props_round_trip_def round_trips_to_def)

lemma props_round_trip_append:
  "props_round_trip X (kvs @ kvs') = props_round_trip X kvs @ props_round_trip X kvs'"
  by (simp add: props_round_trip_def)

lemma object_round_trip:
  "DESERIALIZE X (SERIALIZE X (JObj c kvs)) =
     JSON_REVIVER_FUNC X (JObj ''Object'' (props_round_trip X kvs))"
  by (simp add: DESERIALIZE_def SERIALIZE_def props_round_trip_def)

lemma round_trips_Buffer: "round_trips_to X (JBuffer b) (JBuffer b)"
proof -
  have "map (JSON_parse X) (map (\<lambda>x. JNum (uint x)) b) = map (\<lambda>x. JNum (uint x)) b"
    by (simp add: JSON_REVIVER_FUNC_atom)
  then show ?thesis
    by (simp add: round_trips_to_def JSON_REVIVER_FUNC_atom JSON_REVIVER_FUNC_Buffer
        util_toBuffer_bytes del: map_map)
qed

lemma round_trips_BN: "round_trips_to X (JBN n) (JStr (BN_toString16 X n))"
  by (simp add: round_trips_to_def JSON_REVIVER_FUNC_atom)

lemma round_trips_Str: "round_trips_to X (JStr str) (JStr str)"
  by (simp add: round_trips_to_def JSON_REVIVER_FUNC_atom)

lemma round_trips_Num: "round_trips_to X (JNum n) (JNum n)"
  by (simp add: round_trips_to_def JSON_REVIVER_FUNC_atom)

lemma round_trips_object:
  assumes "props_round_trip X kvs = kvs'" and "''type'' \<notin> fst ` set kvs'"
  shows "round_trips_to X (JObj c kvs) (JObj ''Object'' kvs')"
  using assms object_round_trip [of X c kvs]
  by (simp add: round_trips_to_def JSON_REVIVER_FUNC_no_type DESERIALIZE_def SERIALIZE_def)

lemma round_trips_Signature:
  "round_trips_to X (Signature_object sg) (Signature_object sg)"
proof (cases sg)
  case None
  then show ?thesis by (simp add: Signature_object_def round_trips_to_def JSON_REVIVER_FUNC_atom)
next
  case (Some x)
  have "props_round_trip X
          [(''r'', JBuffer (sig_r x)), (''s'', JBuffer (sig_s x)), (''v'', JNum (sig_v x))] =
          [(''r'', JBuffer (sig_r x)), (''s'', JBuffer (sig_s x)), (''v'', JNum (sig_v x))]"
    by (intro props_round_trip_Cons props_round_trip_Nil round_trips_Buffer round_trips_Num)
  then have "round_trips_to X
     (JObj ''Object'' [(''r'', JBuffer (sig_r x)), (''s'', JBuffer (sig_s x)), (''v'', JNum (sig_v x))])
     (JObj ''Object'' [(''r'', JBuffer (sig_r x)), (''s'', JBuffer (sig_s x)), (''v'', JNum (sig_v x))])"
    by (rule round_trips_object) simp
  with Some show ?thesis by (simp add: Signature_object_def)
qed

lemmas round_trips =
  round_trips_Buffer round_trips_BN round_trips_Str round_trips_Num round_trips_Signature

lemma Signature_or_null_object: "Signature_or_null (Signature_object sg) = Built sg"
  by (cases sg)
     (simp_all add: Signature_or_null_def Signature_object_def truthy_def property_def
        own_keys_def the_JBuffer_def the_JNum_def)

lemma Buffer_or_Buffer: "Buffer_or (JBuffer b) d = Built b"
  by (simp add: Buffer_or_def truthy_def the_JBuffer_def)

lemma TO_BN_hex:
  "BN_new16 X (JStr (BN_toString16 X n)) = Inr n \<Longrightarrow> TO_BN X (JStr (BN_toString16 X n)) = Built n"
  by (simp add: TO_BN_def the_JBN_def)

lemma round_trip_RevealSecret:
  "DESERIALIZE_AND_DECODE_MESSAGE X (SERIALIZE X (object_of (MRevealSecret x))) =
     Built (MRevealSecret x)"
proof -
  have "props_round_trip X (RevealSecret_props ''RevealSecret'' x) =
          [(''classType'', JStr ''RevealSecret''),
           (''signature'', Signature_object (signature x)),
           (''secret'', JBuffer (RevealSecret.secret x)),
           (''to'', JBuffer (RevealSecret.to x))]"
    unfolding RevealSecret_props_def SignedMessage_props_def append.simps
    by (intro props_round_trip_Cons props_round_trip_Nil round_trips)
  then have doc: "DESERIALIZE X (SERIALIZE X (object_of (MRevealSecret x))) =
          JObj ''Object'' [(''classType'', JStr ''RevealSecret''),
            (''signature'', Signature_object (signature x)),
            (''secret'', JBuffer (RevealSecret.secret x)),
            (''to'', JBuffer (RevealSecret.to x))]"
    by (simp add: object_round_trip JSON_REVIVER_FUNC_no_type)
  show ?thesis
    unfolding DESERIALIZE_AND_DECODE_MESSAGE_def doc
    by (cases x) (simp add: hasOwnProperty_def property_def nullish_def RevealSecret_constructor_def
        SignedMessage_constructor_def Signature_or_null_object Buffer_or_Buffer built_as_def
        SignedMessage.defs RevealSecret.defs Let_def)
qed


lemma round_trip_Proof:
  assumes bn: "\<And>n. BN_new16 X (JStr (BN_toString16 X n)) = Inr n"
  shows "DESERIALIZE_AND_DECODE_MESSAGE X (SERIALIZE X (object_of (MProof x))) =
     Built (MProof x)"
proof -
  have "props_round_trip X (Proof_props ''Proof'' x) =
          [(''classType'', JStr ''Proof''),
           (''signature'', Signature_object (signature x)),
           (''nonce'', JStr (BN_toString16 X (Proof.nonce x))),
           (''transferredAmount'', JStr (BN_toString16 X (Proof.transferredAmount x))),
           (''locksRoot'', JBuffer (Proof.locksRoot x)),
           (''channelAddress'', JBuffer (Proof.channelAddress x)),
           (''messageHash'', JBuffer (Proof.messageHash x))]"
    unfolding Proof_props_def SignedMessage_props_def append.simps
    by (intro props_round_trip_Cons props_round_trip_Nil round_trips)
  then have doc: "DESERIALIZE X (SERIALIZE X (object_of (MProof x))) =
          JObj ''Object''
          [(''classType'', JStr ''Proof''),
           (''signature'', Signature_object (signature x)),
           (''nonce'', JStr (BN_toString16 X (Proof.nonce x))),
           (''transferredAmount'', JStr (BN_toString16 X (Proof.transferredAmount x))),
           (''locksRoot'', JBuffer (Proof.locksRoot x)),
           (''channelAddress'', JBuffer (Proof.channelAddress x)),
           (''messageHash'', JBuffer (Proof.messageHash x))]"
    by (simp add: object_round_trip JSON_REVIVER_FUNC_no_type)
  show ?thesis
    unfolding DESERIALIZE_AND_DECODE_MESSAGE_def doc
    by (cases x) (simp add: hasOwnProperty_def property_def nullish_def Proof_constructor_def SignedMessage_constructor_def
        Signature_or_null_object Buffer_or_Buffer TO_BN_hex bn built_as_def
        SignedMessage.defs Proof.defs Let_def)
qed

lemma round_trip_ProofMessage:
  assumes bn: "\<And>n. BN_new16 X (JStr (BN_toString16 X n)) = Inr n"
  shows "DESERIALIZE_AND_DECODE_MESSAGE X (SERIALIZE X (object_of (MProofMessage x))) =
     Built (MProofMessage x)"
proof -
  have "props_round_trip X (ProofMessage_props ''ProofMessage'' x) =
          [(''classType'', JStr ''ProofMessage''),
           (''signature'', Signature_object (signature x)),
           (''nonce'', JStr (BN_toString16 X (ProofMessage.nonce x))),
           (''transferredAmount'', JStr (BN_toString16 X (ProofMessage.transferredAmount x))),
           (''locksRoot'', JBuffer (ProofMessage.locksRoot x)),
           (''channelAddress'', JBuffer (ProofMessage.channelAddress x)),
           (''messageHash'', JBuffer (ProofMessage.messageHash x))]"
    unfolding ProofMessage_props_def SignedMessage_props_def append.simps
    by (intro props_round_trip_Cons props_round_trip_Nil round_trips)
  then have doc: "DESERIALIZE X (SERIALIZE X (object_of (MProofMessage x))) =
          JObj ''Object''
          [(''classType'', JStr ''ProofMessage''),
           (''signature'', Signature_object (signature x)),
           (''nonce'', JStr (BN_toString16 X (ProofMessage.nonce x))),
           (''transferredAmount'', JStr (BN_toString16 X (ProofMessage.transferredAmount x))),
           (''locksRoot'', JBuffer (ProofMessage.locksRoot x)),
           (''channelAddress'', JBuffer (ProofMessage.channelAddress x)),
           (''messageHash'', JBuffer (ProofMessage.messageHash x))]"
    by (simp add: object_round_trip JSON_REVIVER_FUNC_no_type)
  show ?thesis
    unfolding DESERIALIZE_AND_DECODE_MESSAGE_def doc
    by (cases x) (simp add: hasOwnProperty_def property_def nullish_def ProofMessage_constructor_def SignedMessage_constructor_def
        Signature_or_null_object Buffer_or_Buffer TO_BN_hex bn built_as_def
        SignedMessage.defs ProofMessage.defs Let_def)
qed

lemma round_trip_DirectTransfer:
  assumes bn: "\<And>n. BN_new16 X (JStr (BN_toString16 X n)) = Inr n"
  shows "DESERIALIZE_AND_DECODE_MESSAGE X (SERIALIZE X (object_of (MDirectTransfer x))) =
     Built (MDirectTransfer x)"
proof -
  have "props_round_trip X (DirectTransfer_props ''DirectTransfer'' x) =
          [(''classType'', JStr ''DirectTransfer''),
           (''signature'', Signature_object (signature x)),
           (''nonce'', JStr (BN_toString16 X (ProofMessage.nonce x))),
           (''transferredAmount'', JStr (BN_toString16 X (ProofMessage.transferredAmount x))),
           (''locksRoot'', JBuffer (ProofMessage.locksRoot x)),
           (''channelAddress'', JBuffer (ProofMessage.channelAddress x)),
           (''messageHash'', JBuffer (ProofMessage.messageHash x)),
           (''msgID'', JStr (BN_toString16 X (DirectTransfer.msgID x))),
           (''to'', JBuffer (DirectTransfer.to x))]"
    unfolding DirectTransfer_props_def ProofMessage_props_def SignedMessage_props_def append.simps
    by (intro props_round_trip_Cons props_round_trip_Nil round_trips)
  then have doc: "DESERIALIZE X (SERIALIZE X (object_of (MDirectTransfer x))) =
          JObj ''Object''
          [(''classType'', JStr ''DirectTransfer''),
           (''signature'', Signature_object (signature x)),
           (''nonce'', JStr (BN_toString16 X (ProofMessage.nonce x))),
           (''transferredAmount'', JStr (BN_toString16 X (ProofMessage.transferredAmount x))),
           (''locksRoot'', JBuffer (ProofMessage.locksRoot x)),
           (''channelAddress'', JBuffer (ProofMessage.channelAddress x)),
           (''messageHash'', JBuffer (ProofMessage.messageHash x)),
           (''msgID'', JStr (BN_toString16 X (DirectTransfer.msgID x))),
           (''to'', JBuffer (DirectTransfer.to x))]"
    by (simp add: object_round_trip JSON_REVIVER_FUNC_no_type)
  show ?thesis
    unfolding DESERIALIZE_AND_DECODE_MESSAGE_def doc
    by (cases x) (simp add: hasOwnProperty_def property_def nullish_def DirectTransfer_constructor_def ProofMessage_constructor_def SignedMessage_constructor_def
        Signature_or_null_object Buffer_or_Buffer TO_BN_hex bn built_as_def
        SignedMessage.defs ProofMessage.defs DirectTransfer.defs Let_def)
qed

lemma round_trip_RequestSecret:
  assumes bn: "\<And>n. BN_new16 X (JStr (BN_toString16 X n)) = Inr n"
  shows "DESERIALIZE_AND_DECODE_MESSAGE X (SERIALIZE X (object_of (MRequestSecret x))) =
     Built (MRequestSecret x)"
proof -
  have "props_round_trip X (RequestSecret_props ''RequestSecret'' x) =
          [(''classType'', JStr ''RequestSecret''),
           (''signature'', Signature_object (signature x)),
           (''msgID'', JStr (BN_toString16 X (RequestSecret.msgID x))),
           (''to'', JBuffer (RequestSecret.to x)),
           (''hashLock'', JBuffer (RequestSecret.hashLock x)),
           (''amount'', JStr (BN_toString16 X (RequestSecret.amount x)))]"
    unfolding RequestSecret_props_def SignedMessage_props_def append.simps
    by (intro props_round_trip_Cons props_round_trip_Nil round_trips)
  then have doc: "DESERIALIZE X (SERIALIZE X (object_of (MRequestSecret x))) =
          JObj ''Object''
          [(''classType'', JStr ''RequestSecret''),
           (''signature'', Signature_object (signature x)),
           (''msgID'', JStr (BN_toString16 X (RequestSecret.msgID x))),
           (''to'', JBuffer (RequestSecret.to x)),
           (''hashLock'', JBuffer (RequestSecret.hashLock x)),
           (''amount'', JStr (BN_toString16 X (RequestSecret.amount x)))]"
    by (simp add: object_round_trip JSON_REVIVER_FUNC_no_type)
  show ?thesis
    unfolding DESERIALIZE_AND_DECODE_MESSAGE_def doc
    by (cases x) (simp add: hasOwnProperty_def property_def nullish_def RequestSecret_constructor_def SignedMessage_constructor_def
        Signature_or_null_object Buffer_or_Buffer TO_BN_hex bn built_as_def
        SignedMessage.defs RequestSecret.defs Let_def)
qed

lemma round_trip_SecretToProof:
  assumes bn: "\<And>n. BN_new16 X (JStr (BN_toString16 X n)) = Inr n"
  shows "DESERIALIZE_AND_DECODE_MESSAGE X (SERIALIZE X (object_of (MSecretToProof x))) =
     Built (MSecretToProof x)"
proof -
  have "props_round_trip X (SecretToProof_props ''SecretToProof'' x) =
          [(''classType'', JStr ''SecretToProof''),
           (''signature'', Signature_object (signature x)),
           (''nonce'', JStr (BN_toString16 X (ProofMessage.nonce x))),
           (''transferredAmount'', JStr (BN_toString16 X (ProofMessage.transferredAmount x))),
           (''locksRoot'', JBuffer (ProofMessage.locksRoot x)),
           (''channelAddress'', JBuffer (ProofMessage.channelAddress x)),
           (''messageHash'', JBuffer (ProofMessage.messageHash x)),
           (''msgID'', JStr (BN_toString16 X (SecretToProof.msgID x))),
           (''to'', JBuffer (SecretToProof.to x)),
           (''secret'', JBuffer (SecretToProof.secret x))]"
    unfolding SecretToProof_props_def ProofMessage_props_def SignedMessage_props_def append.simps
    by (intro props_round_trip_Cons props_round_trip_Nil round_trips)
  then have doc: "DESERIALIZE X (SERIALIZE X (object_of (MSecretToProof x))) =
          JObj ''Object''
          [(''classType'', JStr ''SecretToProof''),
           (''signature'', Signature_object (signature x)),
           (''nonce'', JStr (BN_toString16 X (ProofMessage.nonce x))),
           (''transferredAmount'', JStr (BN_toString16 X (ProofMessage.transferredAmount x))),
           (''locksRoot'', JBuffer (ProofMessage.locksRoot x)),
           (''channelAddress'', JBuffer (ProofMessage.channelAddress x)),
           (''messageHash'', JBuffer (ProofMessage.messageHash x)),
           (''msgID'', JStr (BN_toString16 X (SecretToProof.msgID x))),
           (''to'', JBuffer (SecretToProof.to x)),
           (''secret'', JBuffer (SecretToProof.secret x))]"
    by (simp add: object_round_trip JSON_REVIVER_FUNC_no_type)
  show ?thesis
    unfolding DESERIALIZE_AND_DECODE_MESSAGE_def doc
    by (cases x) (simp add: hasOwnProperty_def property_def nullish_def SecretToProof_constructor_def ProofMessage_constructor_def SignedMessage_constructor_def
        Signature_or_null_object Buffer_or_Buffer TO_BN_hex bn built_as_def
        SignedMessage.defs ProofMessage.defs SecretToProof.defs Let_def)
qed


lemma round_trips_Lock:
  "round_trips_to X (JObj ''Lock'' (Lock_props lk))
     (JObj ''Object''
        [(''amount'', JStr (BN_toString16 X (Lock.amount lk))),
         (''expiration'', JStr (BN_toString16 X (Lock.expiration lk))),
         (''hashLock'', JBuffer (Lock.hashLock lk))])"
proof -
  have "props_round_trip X (Lock_props lk) =
        [(''amount'', JStr (BN_toString16 X (Lock.amount lk))),
         (''expiration'', JStr (BN_toString16 X (Lock.expiration lk))),
         (''hashLock'', JBuffer (Lock.hashLock lk))]"
    unfolding Lock_props_def
    by (intro props_round_trip_Cons props_round_trip_Nil round_trips)
  then show ?thesis by (rule round_trips_object) simp
qed

lemma Lock_constructor_document:
  assumes bn: "\<And>n. BN_new16 X (JStr (BN_toString16 X n)) = Inr n"
  shows "Lock_constructor X
     (JObj ''Object''
        [(''amount'', JStr (BN_toString16 X (Lock.amount lk))),
         (''expiration'', JStr (BN_toString16 X (Lock.expiration lk))),
         (''hashLock'', JBuffer (Lock.hashLock lk))]) = Built (Lock.truncate lk)"
  by (simp add: Lock_constructor_def property_def nullish_def TO_BN_hex bn Buffer_or_Buffer
      Lock.defs)

lemma Lock_constructor_empty:
  assumes "BN_new16 X JUndefined = Inr z"
  shows "Lock_constructor X (JObj ''Object'' []) =
           Built \<lparr>Lock.amount = z, Lock.expiration = z, Lock.hashLock = EMPTY_32BYTE_BUFFER\<rparr>"
  using assms
  by (simp add: Lock_constructor_def property_def nullish_def TO_BN_def the_JBN_def Buffer_or_def
      truthy_def)

lemma round_trip_LockedTransfer:
  assumes bn: "\<And>n. BN_new16 X (JStr (BN_toString16 X n)) = Inr n"
    and undef: "BN_new16 X JUndefined = Inr z"
  shows "DESERIALIZE_AND_DECODE_MESSAGE X (SERIALIZE X (object_of (MLockedTransfer x))) =
     Built (MLockedTransfer x)"
proof (cases "LockedTransfer.lock x")
  case None
  have "props_round_trip X (LockedTransfer_props ''LockedTransfer'' x) =
          [(''classType'', JStr ''LockedTransfer''),
           (''signature'', Signature_object (signature x)),
           (''nonce'', JStr (BN_toString16 X (ProofMessage.nonce x))),
           (''transferredAmount'', JStr (BN_toString16 X (ProofMessage.transferredAmount x))),
           (''locksRoot'', JBuffer (ProofMessage.locksRoot x)),
           (''channelAddress'', JBuffer (ProofMessage.channelAddress x)),
           (''messageHash'', JBuffer (ProofMessage.messageHash x)),
           (''msgID'', JStr (BN_toString16 X (DirectTransfer.msgID x))),
           (''to'', JBuffer (DirectTransfer.to x))]"
    unfolding LockedTransfer_props_def DirectTransfer_props_def ProofMessage_props_def
      SignedMessage_props_def None append.simps option.case append_Nil2
    by (intro props_round_trip_Cons props_round_trip_Nil round_trips)
  then have doc: "DESERIALIZE X (SERIALIZE X (object_of (MLockedTransfer x))) =
          JObj ''Object''
          [(''classType'', JStr ''LockedTransfer''),
           (''signature'', Signature_object (signature x)),
           (''nonce'', JStr (BN_toString16 X (ProofMessage.nonce x))),
           (''transferredAmount'', JStr (BN_toString16 X (ProofMessage.transferredAmount x))),
           (''locksRoot'', JBuffer (ProofMessage.locksRoot x)),
           (''channelAddress'', JBuffer (ProofMessage.channelAddress x)),
           (''messageHash'', JBuffer (ProofMessage.messageHash x)),
           (''msgID'', JStr (BN_toString16 X (DirectTransfer.msgID x))),
           (''to'', JBuffer (DirectTransfer.to x))]"
    by (simp add: object_round_trip JSON_REVIVER_FUNC_no_type)
  from None show ?thesis
    unfolding DESERIALIZE_AND_DECODE_MESSAGE_def doc
    by (cases x) (simp add: hasOwnProperty_def property_def nullish_def LockedTransfer_constructor_def
        DirectTransfer_constructor_def ProofMessage_constructor_def SignedMessage_constructor_def
        Lock_constructor_empty [OF undef] truthy_def
        Signature_or_null_object Buffer_or_Buffer TO_BN_hex bn built_as_def
        SignedMessage.defs ProofMessage.defs DirectTransfer.defs LockedTransfer.defs Let_def)
next
  case (Some lk)
  have "props_round_trip X (LockedTransfer_props ''LockedTransfer'' x) =
          [(''classType'', JStr ''LockedTransfer''),
           (''signature'', Signature_object (signature x)),
           (''nonce'', JStr (BN_toString16 X (ProofMessage.nonce x))),
           (''transferredAmount'', JStr (BN_toString16 X (ProofMessage.transferredAmount x))),
           (''locksRoot'', JBuffer (ProofMessage.locksRoot x)),
           (''channelAddress'', JBuffer (ProofMessage.channelAddress x)),
           (''messageHash'', JBuffer (ProofMessage.messageHash x)),
           (''msgID'', JStr (BN_toString16 X (DirectTransfer.msgID x))),
           (''to'', JBuffer (DirectTransfer.to x)),
           (''lock'', JObj ''Object''
              [(''amount'', JStr (BN_toString16 X (Lock.amount lk))),
               (''expiration'', JStr (BN_toString16 X (Lock.expiration lk))),
               (''hashLock'', JBuffer (Lock.hashLock lk))])]"
    unfolding LockedTransfer_props_def DirectTransfer_props_def ProofMessage_props_def
      SignedMessage_props_def Some append.simps option.case
    by (intro props_round_trip_Cons props_round_trip_Nil round_trips round_trips_Lock)
  then have doc: "DESERIALIZE X (SERIALIZE X (object_of (MLockedTransfer x))) =
          JObj ''Object''
          [(''classType'', JStr ''LockedTransfer''),
           (''signature'', Signature_object (signature x)),
           (''nonce'', JStr (BN_toString16 X (ProofMessage.nonce x))),
           (''transferredAmount'', JStr (BN_toString16 X (ProofMessage.transferredAmount x))),
           (''locksRoot'', JBuffer (ProofMessage.locksRoot x)),
           (''channelAddress'', JBuffer (ProofMessage.channelAddress x)),
           (''messageHash'', JBuffer (ProofMessage.messageHash x)),
           (''msgID'', JStr (BN_toString16 X (DirectTransfer.msgID x))),
           (''to'', JBuffer (DirectTransfer.to x)),
           (''lock'', JObj ''Object''
              [(''amount'', JStr (BN_toString16 X (Lock.amount lk))),
               (''expiration'', JStr (BN_toString16 X (Lock.expiration lk))),
               (''hashLock'', JBuffer (Lock.hashLock lk))])]"
    by (simp add: object_round_trip JSON_REVIVER_FUNC_no_type)
  from Some show ?thesis
    unfolding DESERIALIZE_AND_DECODE_MESSAGE_def doc
    by (cases x) (simp add: hasOwnProperty_def property_def nullish_def LockedTransfer_constructor_def
        DirectTransfer_constructor_def ProofMessage_constructor_def SignedMessage_constructor_def
        Lock_constructor_document [OF bn] truthy_def instanceof_Lock_def instanceof_Object_def
        Signature_or_null_object Buffer_or_Buffer TO_BN_hex bn built_as_def
        SignedMessage.defs ProofMessage.defs DirectTransfer.defs LockedTransfer.defs Lock.defs
        Let_def)
qed


lemma round_trip_MediatedTransfer:
  assumes bn: "\<And>n. BN_new16 X (JStr (BN_toString16 X n)) = Inr n"
    and undef: "BN_new16 X JUndefined = Inr z"
  shows "DESERIALIZE_AND_DECODE_MESSAGE X (SERIALIZE X (object_of (MMediatedTransfer x))) =
     Built (MMediatedTransfer x)"
proof (cases "LockedTransfer.lock x")
  case None
  have "props_round_trip X (MediatedTransfer_props ''MediatedTransfer'' x) =
          [(''classType'', JStr ''MediatedTransfer''),
           (''signature'', Signature_object (signature x)),
           (''nonce'', JStr (BN_toString16 X (ProofMessage.nonce x))),
           (''transferredAmount'', JStr (BN_toString16 X (ProofMessage.transferredAmount x))),
           (''locksRoot'', JBuffer (ProofMessage.locksRoot x)),
           (''channelAddress'', JBuffer (ProofMessage.channelAddress x)),
           (''messageHash'', JBuffer (ProofMessage.messageHash x)),
           (''msgID'', JStr (BN_toString16 X (DirectTransfer.msgID x))),
           (''to'', JBuffer (DirectTransfer.to x)),
           (''target'', JBuffer (MediatedTransfer.target x)),
           (''initiator'', JBuffer (MediatedTransfer.initiator x))]"
    unfolding MediatedTransfer_props_def LockedTransfer_props_def DirectTransfer_props_def ProofMessage_props_def
      SignedMessage_props_def None append.simps option.case append_Nil2
    by (intro props_round_trip_Cons props_round_trip_Nil round_trips)
  then have doc: "DESERIALIZE X (SERIALIZE X (object_of (MMediatedTransfer x))) =
          JObj ''Object''
          [(''classType'', JStr ''MediatedTransfer''),
           (''signature'', Signature_object (signature x)),
           (''nonce'', JStr (BN_toString16 X (ProofMessage.nonce x))),
           (''transferredAmount'', JStr (BN_toString16 X (ProofMessage.transferredAmount x))),
           (''locksRoot'', JBuffer (ProofMessage.locksRoot x)),
           (''channelAddress'', JBuffer (ProofMessage.channelAddress x)),
           (''messageHash'', JBuffer (ProofMessage.messageHash x)),
           (''msgID'', JStr (BN_toString16 X (DirectTransfer.msgID x))),
           (''to'', JBuffer (DirectTransfer.to x)),
           (''target'', JBuffer (MediatedTransfer.target x)),
           (''initiator'', JBuffer (MediatedTransfer.initiator x))]"
    by (simp add: object_round_trip JSON_REVIVER_FUNC_no_type)
  from None show ?thesis
    unfolding DESERIALIZE_AND_DECODE_MESSAGE_def doc
    by (cases x) (simp add: hasOwnProperty_def property_def nullish_def MediatedTransfer_constructor_def LockedTransfer_constructor_def
        DirectTransfer_constructor_def ProofMessage_constructor_def SignedMessage_constructor_def
        Lock_constructor_empty [OF undef] truthy_def
        Signature_or_null_object Buffer_or_Buffer TO_BN_hex bn built_as_def
        SignedMessage.defs ProofMessage.defs DirectTransfer.defs LockedTransfer.defs MediatedTransfer.defs Let_def)
next
  case (Some lk)
  have "props_round_trip X (MediatedTransfer_props ''MediatedTransfer'' x) =
          [(''classType'', JStr ''MediatedTransfer''),
           (''signature'', Signature_object (signature x)),
           (''nonce'', JStr (BN_toString16 X (ProofMessage.nonce x))),
           (''transferredAmount'', JStr (BN_toString16 X (ProofMessage.transferredAmount x))),
           (''locksRoot'', JBuffer (ProofMessage.locksRoot x)),
           (''channelAddress'', JBuffer (ProofMessage.channelAddress x)),
           (''messageHash'', JBuffer (ProofMessage.messageHash x)),
           (''msgID'', JStr (BN_toString16 X (DirectTransfer.msgID x))),
           (''to'', JBuffer (DirectTransfer.to x)),
           (''lock'', JObj ''Object''
              [(''amount'', JStr (BN_toString16 X (Lock.amount lk))),
               (''expiration'', JStr (BN_toString16 X (Lock.expiration lk))),
               (''hashLock'', JBuffer (Lock.hashLock lk))]),
           (''target'', JBuffer (MediatedTransfer.target x)),
           (''initiator'', JBuffer (MediatedTransfer.initiator x))]"
    unfolding MediatedTransfer_props_def LockedTransfer_props_def DirectTransfer_props_def ProofMessage_props_def
      SignedMessage_props_def Some append.simps option.case
    by (intro props_round_trip_Cons props_round_trip_Nil round_trips round_trips_Lock)
  then have doc: "DESERIALIZE X (SERIALIZE X (object_of (MMediatedTransfer x))) =
          JObj ''Object''
          [(''classType'', JStr ''MediatedTransfer''),
           (''signature'', Signature_object (signature x)),
           (''nonce'', JStr (BN_toString16 X (ProofMessage.nonce x))),
           (''transferredAmount'', JStr (BN_toString16 X (ProofMessage.transferredAmount x))),
           (''locksRoot'', JBuffer (ProofMessage.locksRoot x)),
           (''channelAddress'', JBuffer (ProofMessage.channelAddress x)),
           (''messageHash'', JBuffer (ProofMessage.messageHash x)),
           (''msgID'', JStr (BN_toString16 X (DirectTransfer.msgID x))),
           (''to'', JBuffer (DirectTransfer.to x)),
           (''lock'', JObj ''Object''
              [(''amount'', JStr (BN_toString16 X (Lock.amount lk))),
               (''expiration'', JStr (BN_toString16 X (Lock.expiration lk))),
               (''hashLock'', JBuffer (Lock.hashLock lk))]),
           (''target'', JBuffer (MediatedTransfer.target x)),
           (''initiator'', JBuffer (MediatedTransfer.initiator x))]"
    by (simp add: object_round_trip JSON_REVIVER_FUNC_no_type)
  from Some show ?thesis
    unfolding DESERIALIZE_AND_DECODE_MESSAGE_def doc
    by (cases x) (simp add: hasOwnProperty_def property_def nullish_def MediatedTransfer_constructor_def LockedTransfer_constructor_def
        DirectTransfer_constructor_def ProofMessage_constructor_def SignedMessage_constructor_def
        Lock_constructor_document [OF bn] truthy_def instanceof_Lock_def instanceof_Object_def
        Signature_or_null_object Buffer_or_Buffer TO_BN_hex bn built_as_def
        SignedMessage.defs ProofMessage.defs DirectTransfer.defs LockedTransfer.defs MediatedTransfer.defs Lock.defs
        Let_def)
qed

lemma Ack_constructor_keeps_msgID:
  "truthy jv \<Longrightarrow>
   Ack_constructor (JObj c [(''to'', JBuffer t), (''messageHash'', JBuffer h), (''msgID'', jv)]) =
     Built \<lparr>Ack.to = t, Ack.messageHash = h, Ack.msgID = jv\<rparr>"
  by (simp add: Ack_constructor_def property_def nullish_def Buffer_or_Buffer)

text \<open>
  C7 fails for \<open>Ack\<close>. The class does not extend \<open>SignedMessage\<close> and sets no
  \<open>classType\<close>, so the document \<open>SERIALIZE\<close> writes for an \<open>Ack\<close> has none, and
  \<open>DESERIALIZE_AND_DECODE_MESSAGE\<close> never reaches its \<open>case 'Ack'\<close>: for every
  \<open>Ack\<close> it raises \<open>Invalid Message: not a recoginized GOT message type\<close>.
\<close>

theorem Ack_round_trip_throws:
  "DESERIALIZE_AND_DECODE_MESSAGE X (SERIALIZE X (object_of (MAck a))) =
     Throws (Error ''Invalid Message: not a recoginized GOT message type'')"
  by (simp add: decode_without_classType Ack_props_def)

end
